theory Spec2Isabelle
  imports Main "HOL-Library.Word" "HOL-Library.Multiset"
begin

section \<open>Go values used by the services\<close>

subsection \<open>time.Time\<close>

text \<open>
  A \<open>time.Time\<close> is an instant together with a location. The instant is kept in
  nanoseconds since the Unix epoch, the location as a fixed offset in seconds east of UTC
  (daylight-saving transitions are not modelled). Only the operations the services call are
  defined: \<open>Format\<close> with the layouts \<open>time.DateOnly\<close> ("2006-01-02") and "01-2006",
  \<open>After\<close>, \<open>AddDate(0, 0, n)\<close>, \<open>time.Date(y, m, d, 0, 0, 0, 0, loc)\<close>, \<open>Sub\<close>,
  \<open>Add\<close> and \<open>IsZero\<close>.
\<close>

record Time =
  nsec :: int
  offs :: int

definition civilDay :: "Time \<Rightarrow> int" where
  \<comment> \<open>days since 1970-01-01 of the calendar day the value shows in its own location\<close>
  "civilDay t = (nsec t div 1000000000 + offs t) div 86400"

definition civil_from_days :: "int \<Rightarrow> int \<times> int \<times> int" where
  \<comment> \<open>(year, month, day) of a day number in the proleptic Gregorian calendar\<close>
  "civil_from_days z0 =
     (let z = z0 + 719468;
          era = z div 146097;
          doe = z - era * 146097;
          yoe = (doe - doe div 1460 + doe div 36524 - doe div 146096) div 365;
          doy = doe - (365 * yoe + yoe div 4 - yoe div 100);
          mp = (5 * doy + 2) div 153;
          d = doy - (153 * mp + 2) div 5 + 1;
          m = (if mp < 10 then mp + 3 else mp - 9);
          y = yoe + era * 400 + (if m \<le> 2 then 1 else 0)
      in (y, m, d))"

definition days_from_civil :: "int \<Rightarrow> int \<Rightarrow> int \<Rightarrow> int" where
  "days_from_civil y0 m d =
     (let y = (if m \<le> 2 then y0 - 1 else y0);
          era = y div 400;
          yoe = y - era * 400;
          doy = (153 * (if m > 2 then m - 3 else m + 9) + 2) div 5 + d - 1;
          doe = yoe * 365 + yoe div 4 - yoe div 100 + doy
      in era * 146097 + doe - 719468)"

fun showNat :: "nat \<Rightarrow> string" where
  "showNat n =
     (if n < 10 then [char_of (48 + n)] else showNat (n div 10) @ [char_of (48 + n mod 10)])"

definition padZero :: "nat \<Rightarrow> string \<Rightarrow> string" where
  "padZero w s = replicate (w - length s) (CHR ''0'') @ s"

definition fmtInt :: "nat \<Rightarrow> int \<Rightarrow> string" where
  \<comment> \<open>a number in at least \<open>w\<close> digits, a minus sign first when negative\<close>
  "fmtInt w i = (if i < 0 then ''-'' else '''') @ padZero w (showNat (nat \<bar>i\<bar>))"

definition Format_DateOnly :: "Time \<Rightarrow> string" where
  \<comment> \<open>\<open>t.Format(time.DateOnly)\<close>, also written \<open>t.Format("2006-01-02")\<close>\<close>
  "Format_DateOnly t =
     (case civil_from_days (civilDay t) of
        (y, m, d) \<Rightarrow> fmtInt 4 y @ ''-'' @ fmtInt 2 m @ ''-'' @ fmtInt 2 d)"

definition Format_MonthYear :: "Time \<Rightarrow> string" where
  \<comment> \<open>\<open>t.Format("01-2006")\<close>\<close>
  "Format_MonthYear t =
     (case civil_from_days (civilDay t) of (y, m, d) \<Rightarrow> fmtInt 2 m @ ''-'' @ fmtInt 4 y)"

definition After :: "Time \<Rightarrow> Time \<Rightarrow> bool" where
  "After t u = (nsec u < nsec t)"

definition AddDays :: "Time \<Rightarrow> int \<Rightarrow> Time" where
  \<comment> \<open>\<open>t.AddDate(0, 0, n)\<close>: the same wall clock \<open>n\<close> calendar days later\<close>
  "AddDays t n = t\<lparr>nsec := nsec t + n * 86400 * 1000000000\<rparr>"

definition midnightOf :: "int \<Rightarrow> int \<Rightarrow> Time" where
  \<comment> \<open>the instant 00:00:00 of a day number in the location with the given offset\<close>
  "midnightOf day off = \<lparr>nsec = (day * 86400 - off) * 1000000000, offs = off\<rparr>"

definition startOfDay :: "Time \<Rightarrow> Time" where
  \<comment> \<open>\<open>time.Date(t.Year(), t.Month(), t.Day(), 0, 0, 0, 0, t.Location())\<close>\<close>
  "startOfDay t = midnightOf (civilDay t) (offs t)"

definition getFirstDayOfMonth :: "Time \<Rightarrow> Time" where
  \<comment> \<open>\<open>time.Date(date.Year(), date.Month(), 1, 0, 0, 0, 0, date.Location())\<close>\<close>
  "getFirstDayOfMonth date =
     (case civil_from_days (civilDay date) of
        (y, m, d) \<Rightarrow> midnightOf (days_from_civil y m 1) (offs date))"

type_synonym Duration = int

definition maxDuration :: Duration where
  "maxDuration = 9223372036854775807"

definition minDuration :: Duration where
  "minDuration = - 9223372036854775808"

definition Sub :: "Time \<Rightarrow> Time \<Rightarrow> Duration" where
  \<comment> \<open>\<open>t.Sub(u)\<close> in nanoseconds; the library saturates at the ends of int64\<close>
  "Sub t u =
     (let d = nsec t - nsec u
      in if d > maxDuration then maxDuration else if d < minDuration then minDuration else d)"

definition Until :: "Time \<Rightarrow> Time \<Rightarrow> Duration" where
  \<comment> \<open>\<open>time.Until(t)\<close> when the clock reads \<open>now\<close>\<close>
  "Until now t = Sub t now"

definition Add :: "Time \<Rightarrow> Duration \<Rightarrow> Time" where
  "Add t d = t\<lparr>nsec := nsec t + d\<rparr>"

definition Hour :: Duration where
  "Hour = 3600 * 1000000000"

definition Second :: Duration where
  "Second = 1000000000"

definition zeroTime :: Time where
  \<comment> \<open>\<open>time.Time{}\<close>: January 1, year 1, 00:00:00 UTC\<close>
  "zeroTime = \<lparr>nsec = - 62135596800 * 1000000000, offs = 0\<rparr>"

definition IsZero :: "Time \<Rightarrow> bool" where
  "IsZero t = (nsec t = nsec zeroTime)"

subsection \<open>float64\<close>

text \<open>
  The services add, divide, compare and round \<open>float64\<close> values. The arithmetic is the
  Go runtime's, not code of the repository: it is taken as a parameter, a record of the
  operations used, and every theorem below holds for whatever operations are supplied.
  Integers of type \<open>int\<close> are 64-bit words.
\<close>

record 'f float64 =
  fzero :: 'f
  fadd :: "'f \<Rightarrow> 'f \<Rightarrow> 'f"
  fmul :: "'f \<Rightarrow> 'f \<Rightarrow> 'f"
  fdiv :: "'f \<Rightarrow> 'f \<Rightarrow> 'f"
  fgt :: "'f \<Rightarrow> 'f \<Rightarrow> bool"
  feq :: "'f \<Rightarrow> 'f \<Rightarrow> bool"
  ofInt :: "64 word \<Rightarrow> 'f"
  toInt :: "'f \<Rightarrow> 64 word"
  mathRound :: "'f \<Rightarrow> 'f"
  formatFloat :: "'f \<Rightarrow> string"

definition whole_ops :: "int float64" where
  \<comment> \<open>whole numbers with exact arithmetic, for the worked examples: on their values
      (small whole numbers, divisions without remainder) float64 arithmetic is exact too\<close>
  "whole_ops =
     \<lparr>fzero = 0, fadd = (+), fmul = (*), fdiv = (div), fgt = (\<lambda>a b. b < a), feq = (=),
      ofInt = sint, toInt = word_of_int, mathRound = (\<lambda>x. x), formatFloat = fmtInt 0\<rparr>"

definition RoundWithTwoDecimalPlace :: "'f float64 \<Rightarrow> 'f \<Rightarrow> 'f" where
  "RoundWithTwoDecimalPlace fl f =
     (if feq fl f (fzero fl) then fzero fl
      else fdiv fl (mathRound fl (fmul fl f (ofInt fl 100))) (ofInt fl 100))"

subsection \<open>sort.Slice\<close>

text \<open>
  \<open>sort.Slice(x, less)\<close> is the standard library's sort; its documentation promises a
  slice sorted by \<open>less\<close> and adds that the sort is not guaranteed to be stable. The
  callers below take it as a parameter \<open>sortSlice\<close>; \<open>sortSlice_post\<close> is what the
  library promises of one call. On a slice of at most 12 elements the library runs its
  insertion sort, which moves an element to the left only past elements it is \<open>less\<close>
  than, so that equal elements stay in the order they had in the slice;
  \<open>insertionSort\<close> is that sort.
\<close>

definition sortSlice_post :: "('a \<Rightarrow> 'a \<Rightarrow> bool) \<Rightarrow> 'a list \<Rightarrow> 'a list \<Rightarrow> bool" where
  "sortSlice_post lt xs ys = (mset ys = mset xs \<and> sorted_wrt (\<lambda>a b. \<not> lt b a) ys)"

fun insertStable :: "('a \<Rightarrow> 'a \<Rightarrow> bool) \<Rightarrow> 'a \<Rightarrow> 'a list \<Rightarrow> 'a list" where
  "insertStable lt x [] = [x]"
| "insertStable lt x (y # ys) =
     (if lt y x then y # insertStable lt x ys else x # y # ys)"

fun insertionSort :: "('a \<Rightarrow> 'a \<Rightarrow> bool) \<Rightarrow> 'a list \<Rightarrow> 'a list" where
  \<comment> \<open>what \<open>sort.Slice\<close> returns for at most 12 elements\<close>
  "insertionSort lt [] = []"
| "insertionSort lt (x # xs) = insertStable lt x (insertionSort lt xs)"

section \<open>The monthly store ranking (scheduler.TopRankingAccountsService)\<close>

text \<open>
  Structs are records with the source's field names; a field name that several structs
  share carries the struct as a suffix. Fields the services neither read nor write (database
  ids, created/updated timestamps, the order's line items) are left out.
\<close>

datatype panic = NilPointerDereference

record AdAccount =
  BusinessManagerID :: string
  BusinessManagerName :: string
  CNPJ :: "string option"
  ExternalID_account :: string
  ID :: string
  Name_account :: string
  Nickname :: "string option"
  Origin :: string
  SecretName :: "string option"
  Status :: string

record 'f Order =
  Date_order :: string
  NetAmount_order :: 'f
  CustomerOrigins :: "string list"

record 'f StoreRankingItem =
  AccountID_ranking :: string
  Month :: string
  StoreName :: string
  SocialNetworkRevenue :: 'f
  Position :: int
  PositionChange :: int
  PreviousPosition :: int

definition SocialNetworkOrigins :: "string list" where
  "SocialNetworkOrigins =
     [''Redes Sociais'',
      ''Tr'' @ [CHR 0xC3, CHR 0xA1] @ ''fego Pago'',
      ''Rede Social'',
      ''Redes Sociais / Trafego Pago'',
      ''Redes Sociais / Trafego Pago'',
      ''Trafego Pago'',
      ''Redes Sociais / Trafego'',
      ''Redes Socias'',
      ''Rede Social - Eclel'',
      ''Rede Social - Bruna'']"

definition GetSumNetAmountSocialNetwork :: "'f float64 \<Rightarrow> 'f Order list \<Rightarrow> 'f" where
  "GetSumNetAmountSocialNetwork fl s =
     foldl (\<lambda>totalNetAmount sale.
              case CustomerOrigins sale of
                [] \<Rightarrow> totalNetAmount
              | origin # _ \<Rightarrow>
                  if origin \<in> set SocialNetworkOrigins
                  then fadd fl totalNetAmount (NetAmount_order sale)
                  else totalNetAmount)
           (fzero fl) s"

text \<open>
  The repositories and the SSOtica integrator are collaborators behind interfaces: a record
  of their operations, each returning the error (\<open>Inl\<close>) or the value.
\<close>

record 'f ranking_deps =
  GetByAccountID :: "string \<Rightarrow> string \<Rightarrow> string + 'f StoreRankingItem option"
  GetSalesByAccount :: "string \<Rightarrow> string \<Rightarrow> Time \<Rightarrow> Time \<Rightarrow> string + 'f Order list"
  SaveOrUpdateStoreRanking :: "'f StoreRankingItem list \<Rightarrow> string option"

definition rankingLess :: "'f float64 \<Rightarrow> 'f StoreRankingItem \<Rightarrow> 'f StoreRankingItem \<Rightarrow> bool" where
  \<comment> \<open>the \<open>less\<close> closure handed to \<open>sort.Slice\<close>\<close>
  "rankingLess fl a b = fgt fl (SocialNetworkRevenue a) (SocialNetworkRevenue b)"

definition positionRow ::
  "(string \<rightharpoonup> 'f StoreRankingItem) \<Rightarrow> nat \<Rightarrow> 'f StoreRankingItem \<Rightarrow> 'f StoreRankingItem"
where
  \<comment> \<open>the body of the loop \<open>for i, ranking := range updatedRankings\<close>\<close>
  "positionRow rankingsBeforeUpdate i ranking =
     (let ranking1 = ranking\<lparr>Position := int i + 1\<rparr>
      in case rankingsBeforeUpdate (AccountID_ranking ranking1) of
           Some rankingBefore \<Rightarrow>
             ranking1\<lparr>PositionChange := Position rankingBefore - Position ranking1,
                      PreviousPosition := Position rankingBefore\<rparr>
         | None \<Rightarrow> ranking1)"

fun assignPositions ::
  "(string \<rightharpoonup> 'f StoreRankingItem) \<Rightarrow> nat \<Rightarrow> 'f StoreRankingItem list \<Rightarrow> 'f StoreRankingItem list"
where
  \<comment> \<open>the loop, from index \<open>i\<close> on\<close>
  "assignPositions rankingsBeforeUpdate i [] = []"
| "assignPositions rankingsBeforeUpdate i (ranking # rest) =
     positionRow rankingsBeforeUpdate i ranking # assignPositions rankingsBeforeUpdate (Suc i) rest"

definition updatePositions ::
  "(('f StoreRankingItem \<Rightarrow> 'f StoreRankingItem \<Rightarrow> bool) \<Rightarrow> 'f StoreRankingItem list \<Rightarrow> 'f StoreRankingItem list)
   \<Rightarrow> 'f float64 \<Rightarrow> 'f StoreRankingItem list \<Rightarrow> (string \<rightharpoonup> 'f StoreRankingItem)
   \<Rightarrow> 'f StoreRankingItem list"
where
  "updatePositions sortSlice fl updatedRankings rankingsBeforeUpdate =
     assignPositions rankingsBeforeUpdate 0 (sortSlice (rankingLess fl) updatedRankings)"

definition rankingsBefore ::
  "'f ranking_deps \<Rightarrow> string \<Rightarrow> AdAccount list \<Rightarrow> (string \<rightharpoonup> 'f StoreRankingItem)"
where
  \<comment> \<open>the first goroutine of every account, and the loop that fills the map
      \<open>rankingsBeforeUpdate\<close> from the channel: a lookup that fails and a row with an
      empty account id add nothing\<close>
  "rankingsBefore deps month accounts =
     foldl (\<lambda>m account.
              case GetByAccountID deps (ID account) month of
                Inr (Some topRankingItem) \<Rightarrow>
                  if AccountID_ranking topRankingItem = [] then m
                  else m(AccountID_ranking topRankingItem \<mapsto> topRankingItem)
              | _ \<Rightarrow> m)
           Map.empty accounts"

fun newRankings ::
  "'f ranking_deps \<Rightarrow> 'f float64 \<Rightarrow> Time \<Rightarrow> Time \<Rightarrow> AdAccount list \<Rightarrow> panic + 'f StoreRankingItem list"
where
  \<comment> \<open>the second goroutine of every account, and the loop that drains the channel
      \<open>rankings\<close>: \<open>getSalesByAccount\<close> dereferences \<open>account.CNPJ\<close> and
      \<open>account.SecretName\<close>; an account whose sales cannot be fetched adds no row\<close>
  "newRankings deps fl firstDayOfMonth yesterday [] = Inr []"
| "newRankings deps fl firstDayOfMonth yesterday (account # accounts) =
     (case (CNPJ account, SecretName account) of
        (Some cnpj, Some secretName) \<Rightarrow>
          (case newRankings deps fl firstDayOfMonth yesterday accounts of
             Inl p \<Rightarrow> Inl p
           | Inr rest \<Rightarrow>
               (case GetSalesByAccount deps cnpj secretName firstDayOfMonth yesterday of
                  Inl err \<Rightarrow> Inr rest
                | Inr sales \<Rightarrow>
                    Inr (\<lparr>AccountID_ranking = ID account,
                          Month = Format_MonthYear yesterday,
                          StoreName = Name_account account,
                          SocialNetworkRevenue = GetSumNetAmountSocialNetwork fl sales,
                          Position = 0,
                          PositionChange = 0,
                          PreviousPosition = 0\<rparr> # rest)))
      | _ \<Rightarrow> Inl NilPointerDereference)"

definition processTopRankingAccountsWithDate ::
  "(('f StoreRankingItem \<Rightarrow> 'f StoreRankingItem \<Rightarrow> bool) \<Rightarrow> 'f StoreRankingItem list \<Rightarrow> 'f StoreRankingItem list)
   \<Rightarrow> ('f StoreRankingItem list \<Rightarrow> 'f StoreRankingItem list)
   \<Rightarrow> 'f float64 \<Rightarrow> 'f ranking_deps \<Rightarrow> AdAccount list \<Rightarrow> Time
   \<Rightarrow> panic + ('f StoreRankingItem list \<times> string option)"
where
  \<comment> \<open>returns the rows, which are also the batch handed to \<open>SaveOrUpdateStoreRanking\<close>,
      and that call's error. The rows are received from the channel in the order the
      goroutines finish: \<open>arrival\<close> is that reordering of the rows listed in account order\<close>
  "processTopRankingAccountsWithDate sortSlice arrival fl deps accounts processingDate =
     (let yesterday = AddDays processingDate (- 1);
          firstDayOfMonth = getFirstDayOfMonth yesterday;
          month = Format_MonthYear yesterday
      in case newRankings deps fl firstDayOfMonth yesterday accounts of
           Inl p \<Rightarrow> Inl p
         | Inr rows \<Rightarrow>
             (let ranked = updatePositions sortSlice fl (arrival rows)
                             (rankingsBefore deps month accounts)
              in Inr (ranked, SaveOrUpdateStoreRanking deps ranked)))"

section \<open>The Meta token manager (metaclient.TokenManager)\<close>

text \<open>
  Errors are their messages, as the callers inspect them with \<open>strings.Contains\<close>. The
  messages are UTF-8 byte strings; the accented letters of the Portuguese texts are written
  as their bytes. Logging does not change the state and is left out.
\<close>

type_synonym error = string

definition a_tilde :: string where "a_tilde = [CHR 0xC3, CHR 0xA3]"
definition a_acute :: string where "a_acute = [CHR 0xC3, CHR 0xA1]"
definition c_cedilla :: string where "c_cedilla = [CHR 0xC3, CHR 0xA7]"
definition e_acute :: string where "e_acute = [CHR 0xC3, CHR 0xA9]"
definition E_acute :: string where "E_acute = [CHR 0xC3, CHR 0x89]"

fun HasPrefix :: "string \<Rightarrow> string \<Rightarrow> bool" where
  "HasPrefix s [] = True"
| "HasPrefix [] (c # p) = False"
| "HasPrefix (a # s) (c # p) = (a = c \<and> HasPrefix s p)"

fun Contains :: "string \<Rightarrow> string \<Rightarrow> bool" where
  \<comment> \<open>\<open>strings.Contains(s, substr)\<close>\<close>
  "Contains [] substr = (substr = [])"
| "Contains (a # s) substr = (HasPrefix (a # s) substr \<or> Contains s substr)"

record MetaConfig =
  BaseURL :: string
  URL :: string
  Version :: string
  AccessToken :: string
  AppID :: string
  AppSecret :: string
  LongLivedToken :: string
  TokenExpiresAt :: Time
  ServiceID :: string

record TokenResponse =
  AccessToken_response :: string
  TokenType :: string
  ExpiresIn :: "64 word"

datatype http_reply =
    GetFailed error
  | ReadFailed error
  | Response nat string

datatype network_call =
    TokenExchange string
  | SecretPush string string string

text \<open>
  The world outside the process: the clock, the Graph API's answer to a token exchange and
  the JSON decoder. \<open>clock env n\<close> is what the \<open>n\<close>-th call of \<open>time.Now()\<close> returns,
  \<open>exchange env n tok\<close> the answer to the exchange request for \<open>tok\<close> sent as the
  \<open>n\<close>-th network call. The state of the manager is its configuration together with the
  network calls made so far, oldest first, and the number of clock readings.
\<close>

record token_env =
  clock :: "nat \<Rightarrow> Time"
  exchange :: "nat \<Rightarrow> string \<Rightarrow> http_reply"
  decodeTokenResponse :: "string \<Rightarrow> error + TokenResponse"

record token_state =
  cfg :: MetaConfig
  calls :: "network_call list"
  clockReads :: nat

definition Now :: "token_env \<Rightarrow> token_state \<Rightarrow> Time \<times> token_state" where
  "Now env st = (clock env (clockReads st), st\<lparr>clockReads := Suc (clockReads st)\<rparr>)"

definition GetLongLivedToken ::
  "token_env \<Rightarrow> token_state \<Rightarrow> string \<Rightarrow> (error + TokenResponse) \<times> token_state"
where
  "GetLongLivedToken env st shortLivedToken =
     (if shortLivedToken = [] then
        (Inl (''token de acesso n'' @ a_tilde @ ''o pode ser vazio''), st)
      else
        let st1 = st\<lparr>calls := calls st @ [TokenExchange shortLivedToken]\<rparr> in
        (case exchange env (length (calls st)) shortLivedToken of
           GetFailed err \<Rightarrow>
             (Inl (''erro ao obter token de longa dura'' @ c_cedilla @ a_tilde @ ''o: '' @ err), st1)
         | ReadFailed err \<Rightarrow> (Inl (''erro ao ler resposta: '' @ err), st1)
         | Response statusCode body \<Rightarrow>
             if statusCode \<noteq> 200 then
               (Inl (''erro ao obter token de longa dura'' @ c_cedilla @ a_tilde @ ''o. Status: ''
                     @ showNat statusCode @ '', Resposta: '' @ body), st1)
             else
               (case decodeTokenResponse env body of
                  Inl err \<Rightarrow> (Inl (''erro ao decodificar resposta: '' @ err), st1)
                | Inr tokenResp \<Rightarrow>
                    if AccessToken_response tokenResp = [] then
                      (Inl (''token retornado pela API '' @ e_acute @ '' vazio''), st1)
                    else (Inr tokenResp, st1))))"

definition truncDiv :: "int \<Rightarrow> int \<Rightarrow> int" where
  \<comment> \<open>Go's integer division rounds toward zero\<close>
  "truncDiv a b = sgn a * sgn b * (\<bar>a\<bar> div \<bar>b\<bar>)"

definition CalculateTokenExpiration :: "Time \<Rightarrow> 64 word \<Rightarrow> Time" where
  \<comment> \<open>\<open>now\<close> is the reading of \<open>time.Now()\<close>; the arithmetic is int64 and wraps\<close>
  "CalculateTokenExpiration now expiresIn =
     (let buffer = (86400 :: 64 word);
          safeExpiresIn0 = expiresIn - buffer;
          safeExpiresIn =
            (if sint safeExpiresIn0 < 0 then word_of_int (truncDiv (sint expiresIn) 2)
             else safeExpiresIn0)
      in Add now (sint (safeExpiresIn * 1000000000)))"

definition mentionsExpiry :: "string \<Rightarrow> bool" where
  "mentionsExpiry errMsg =
     (Contains errMsg ''Error validating access token'' \<or>
      Contains errMsg ''Session has expired'' \<or>
      Contains errMsg ''The session has been invalidated'')"

definition refreshTokenInternal :: "token_env \<Rightarrow> token_state \<Rightarrow> error option \<times> token_state" where
  \<comment> \<open>runs under \<open>TokenRefreshMutex\<close> from its first statement to its return: calls
      of it never overlap, so one call is one step on the state\<close>
  "refreshTokenInternal env st =
     (let st1 = (if IsZero (TokenExpiresAt (cfg st)) then st else snd (Now env st)) in
      case GetLongLivedToken env st1 (AccessToken (cfg st1)) of
        (Inl err, st2) \<Rightarrow>
          if mentionsExpiry err then
            (Some (''o token de acesso expirou e n'' @ a_tilde
                   @ ''o pode ser renovado automaticamente. '' @ E_acute @ '' necess'' @ a_acute
                   @ ''rio reautorizar o aplicativo atrav'' @ e_acute
                   @ ''s do processo de autentica'' @ c_cedilla @ a_tilde @ ''o OAuth: '' @ err),
             st2)
          else
            (Some (''erro ao obter novo token de longa dura'' @ c_cedilla @ a_tilde @ ''o: '' @ err),
             st2)
      | (Inr tokenResponse, st2) \<Rightarrow>
          (case Now env st2 of
             (now, st3) \<Rightarrow>
               (None,
                st3\<lparr>cfg := (cfg st3)
                       \<lparr>LongLivedToken := AccessToken_response tokenResponse,
                        TokenExpiresAt := CalculateTokenExpiration now (ExpiresIn tokenResponse),
                        AccessToken := AccessToken_response tokenResponse\<rparr>\<rparr>)))"

definition RefreshToken :: "token_env \<Rightarrow> token_state \<Rightarrow> error option \<times> token_state" where
  "RefreshToken env st = refreshTokenInternal env st"

definition InitiateToken :: "token_env \<Rightarrow> token_state \<Rightarrow> error option \<times> token_state" where
  "InitiateToken env st =
     (if LongLivedToken (cfg st) \<noteq> [] then (None, st)
      else
        case GetLongLivedToken env st (AccessToken (cfg st)) of
          (Inl err, st1) \<Rightarrow>
            (Some (''erro ao obter token de longa dura'' @ c_cedilla @ a_tilde @ ''o: '' @ err), st1)
        | (Inr tokenResponse, st1) \<Rightarrow>
            (case Now env st1 of
               (now, st2) \<Rightarrow>
                 (let cfg2 = (cfg st2)
                        \<lparr>LongLivedToken := AccessToken_response tokenResponse,
                         TokenExpiresAt := CalculateTokenExpiration now (ExpiresIn tokenResponse),
                         AccessToken := AccessToken_response tokenResponse\<rparr>
                  in (None,
                      st2\<lparr>cfg := cfg2,
                          calls := calls st2
                            @ [SecretPush (ServiceID cfg2) ''meta_access_token'' (AccessToken cfg2)]\<rparr>))))"

definition EnsureValidToken :: "token_env \<Rightarrow> token_state \<Rightarrow> error option \<times> token_state" where
  "EnsureValidToken env st =
     (if AccessToken (cfg st) = [] then InitiateToken env st
      else
        case Now env st of
          (now, st1) \<Rightarrow>
            if Until now (TokenExpiresAt (cfg st1)) < 24 * Hour then RefreshToken env st1
            else (None, st1))"

fun refreshTimes :: "token_env \<Rightarrow> nat \<Rightarrow> token_state \<Rightarrow> token_state" where
  \<comment> \<open>\<open>n\<close> calls of \<open>RefreshToken\<close>, in the order the mutex lets them in\<close>
  "refreshTimes env 0 st = st"
| "refreshTimes env (Suc n) st = refreshTimes env n (snd (RefreshToken env st))"

definition exchanges :: "network_call list \<Rightarrow> network_call list" where
  "exchanges cs = filter (\<lambda>c. case c of TokenExchange tok \<Rightarrow> True | _ \<Rightarrow> False) cs"

section \<open>The sync jobs' run guard (scheduler)\<close>

text \<open>
  Every job keeps a mutex \<open>syncMutex\<close> and a flag \<open>syncRunning\<close>. A run is started by
  the cron library calling the job's run function, or by \<open>TriggerManualSync\<close>, which
  checks the flag and then starts the run function in a goroutine. Goroutines interleave, so
  the guard is modelled by a step function on program points: a schedule names, step by
  step, the goroutine that moves; a goroutine waiting in \<open>Lock()\<close> for a held mutex, or
  one that has returned, does not move. \<open>passes\<close> counts the passes over the account list.

  \<open>UpdateTopRankingAccounts\<close> locks, defers the unlock, tests and sets the flag, makes the
  pass, and on return runs its deferred calls: the flag is cleared, then the mutex is
  released. \<open>syncAllMetaInsights\<close> (the SSOtica and the monthly job are written the same
  way) locks, tests and sets the flag, unlocks, makes the pass, and its deferred call locks
  again to clear the flag.
\<close>

datatype job = TopRanking | MetaInsights

datatype pc =
    R_Lock | R_Check | R_Pass | R_ClearFlag | R_Unlock
  | M_Lock | M_Check | M_Pass | M_DeferLock | M_DeferClear
  | T_Lock job | T_Check job | T_Spawn job
  | Returned

record sync_state =
  mutexLocked :: bool
  syncRunning :: bool
  passes :: nat
  goroutines :: "pc list"

definition runFunction :: "job \<Rightarrow> pc" where
  "runFunction j = (case j of TopRanking \<Rightarrow> R_Lock | MetaInsights \<Rightarrow> M_Lock)"

fun stepAt :: "pc \<Rightarrow> sync_state \<Rightarrow> (pc \<times> sync_state) option" where
  "stepAt R_Lock s =
     (if mutexLocked s then None else Some (R_Check, s\<lparr>mutexLocked := True\<rparr>))"
| "stepAt R_Check s =
     (if syncRunning s then Some (Returned, s\<lparr>mutexLocked := False\<rparr>)
      else Some (R_Pass, s\<lparr>syncRunning := True\<rparr>))"
| "stepAt R_Pass s = Some (R_ClearFlag, s\<lparr>passes := Suc (passes s)\<rparr>)"
| "stepAt R_ClearFlag s = Some (R_Unlock, s\<lparr>syncRunning := False\<rparr>)"
| "stepAt R_Unlock s = Some (Returned, s\<lparr>mutexLocked := False\<rparr>)"
| "stepAt M_Lock s =
     (if mutexLocked s then None else Some (M_Check, s\<lparr>mutexLocked := True\<rparr>))"
| "stepAt M_Check s =
     (if syncRunning s then Some (Returned, s\<lparr>mutexLocked := False\<rparr>)
      else Some (M_Pass, s\<lparr>syncRunning := True, mutexLocked := False\<rparr>))"
| "stepAt M_Pass s = Some (M_DeferLock, s\<lparr>passes := Suc (passes s)\<rparr>)"
| "stepAt M_DeferLock s =
     (if mutexLocked s then None else Some (M_DeferClear, s\<lparr>mutexLocked := True\<rparr>))"
| "stepAt M_DeferClear s = Some (Returned, s\<lparr>syncRunning := False, mutexLocked := False\<rparr>)"
| "stepAt (T_Lock j) s =
     (if mutexLocked s then None else Some (T_Check j, s\<lparr>mutexLocked := True\<rparr>))"
| "stepAt (T_Check j) s =
     (if syncRunning s then Some (Returned, s\<lparr>mutexLocked := False\<rparr>)
      else Some (T_Spawn j, s\<lparr>mutexLocked := False\<rparr>))"
| "stepAt (T_Spawn j) s = Some (Returned, s\<lparr>goroutines := goroutines s @ [runFunction j]\<rparr>)"
| "stepAt Returned s = None"

definition step :: "sync_state \<Rightarrow> nat \<Rightarrow> sync_state" where
  \<comment> \<open>goroutine \<open>i\<close> moves if it can\<close>
  "step s i =
     (if i < length (goroutines s) then
        (case stepAt (goroutines s ! i) s of
           None \<Rightarrow> s
         | Some (pc', s') \<Rightarrow> s'\<lparr>goroutines := (goroutines s')[i := pc']\<rparr>)
      else s)"

definition run :: "nat list \<Rightarrow> sync_state \<Rightarrow> sync_state" where
  "run schedule s = foldl step s schedule"

definition idle :: "pc list \<Rightarrow> sync_state" where
  \<comment> \<open>a job at rest, with the goroutines about to call into it\<close>
  "idle gs = \<lparr>mutexLocked = False, syncRunning = False, passes = 0, goroutines = gs\<rparr>"

section \<open>The insight service (insighting.Service)\<close>

subsection \<open>Data\<close>

text \<open>
  A pointer the code tests against \<open>nil\<close> is an \<open>option\<close>. The slices hold the
  pointers their producers allocate (entries, campaigns, sales), which are never \<open>nil\<close>.
  The keys of the per-date maps are the strings \<open>Format(time.DateOnly)\<close> prints.
\<close>

record InsigthFilters =
  StartDate :: "Time option"
  EndDate :: "Time option"

record 'f CampaignInsight =
  CampaignID :: string
  CampaignName :: string
  Clicks :: string
  CostPerResult_campaign :: 'f
  Frequency_campaign :: string
  Impressions_campaign :: string
  Objective_campaign :: string
  Reach_campaign :: string
  Result_campaign :: "64 word"
  Spend_campaign :: 'f

record 'f AdAccountMetrics =
  AccountID_metrics :: string
  Campaigns :: "'f CampaignInsight list"
  CostPerResult :: 'f
  Frequency :: 'f
  Impressions :: "64 word"
  Name_metrics :: string
  Objective :: string
  Reach :: "64 word"
  Result :: "64 word"
  Spend :: 'f
  CostPerResultByDate :: "string \<rightharpoonup> 'f"
  ResultByDate :: "string \<rightharpoonup> 64 word"

record 'f AdInsightEntry =
  AccountID_adEntry :: string
  ExternalID_adEntry :: string
  Date_adEntry :: Time
  AdMetrics :: "'f AdAccountMetrics option"

record 'f Sale =
  Date_sale :: "Time option"
  NetAmount_sale :: 'f

record 'f SalesMetrics =
  TotalRevenue :: 'f
  SalesQuantity :: "64 word"
  AverageTicket :: 'f
  Sales :: "'f Sale list"

type_synonym 'f sales_by_origin = "string \<rightharpoonup> 'f SalesMetrics option"

record 'f SalesInsightEntry =
  AccountID_salesEntry :: string
  Date_salesEntry :: Time
  SalesMetrics_entry :: "'f sales_by_origin option"

record 'f ResultMetrics =
  Conversion :: 'f
  ROI :: string

record 'f AdAccountInsightsResponse =
  AdAccountMetrics_response :: "'f AdAccountMetrics option"
  SalesMetrics_response :: "'f sales_by_origin option"
  ResultMetrics_response :: "'f ResultMetrics option"
  Filters :: InsigthFilters

record ReachImpressionsResponse =
  AccountID_reach :: string
  AccountName :: string
  Reach_reach :: "64 word"
  Impressions_reach :: "64 word"
  StartDate_reach :: string
  EndDate_reach :: string

definition SocialNetwork :: string where "SocialNetwork = ''SocialNetwork''"
definition Store :: string where "Store = ''Store''"
definition SocialNetworkOrigin :: string where "SocialNetworkOrigin = ''Redes Sociais''"
definition OthersOrigin :: string where "OthersOrigin = ''others''"

subsection \<open>strconv\<close>

definition isDigit :: "char \<Rightarrow> bool" where
  "isDigit c = (48 \<le> (of_char c :: nat) \<and> (of_char c :: nat) \<le> 57)"

definition digitsValue :: "string \<Rightarrow> nat" where
  "digitsValue ds = foldl (\<lambda>n c. 10 * n + (of_char c - 48)) 0 ds"

definition Atoi :: "string \<Rightarrow> 64 word option" where
  \<comment> \<open>\<open>strconv.Atoi\<close>: an optional sign and decimal digits, within int64; \<open>None\<close> is
      its error\<close>
  "Atoi s =
     (case (case s of
              [] \<Rightarrow> (False, [])
            | c # r \<Rightarrow>
                if c = CHR ''-'' then (True, r)
                else if c = CHR ''+'' then (False, r) else (False, s)) of
        (neg, ds) \<Rightarrow>
          if ds = [] \<or> \<not> list_all isDigit ds then None
          else
            let v = (if neg then - int (digitsValue ds) else int (digitsValue ds)) in
            if v < - 9223372036854775808 \<or> 9223372036854775807 < v then None
            else Some (word_of_int v))"

definition Itoa :: "64 word \<Rightarrow> string" where
  "Itoa i = fmtInt 0 (sint i)"

subsection \<open>Aggregation\<close>

definition sumStringInts :: "string \<Rightarrow> string \<Rightarrow> string" where
  "sumStringInts a0 b0 =
     (let a = (if a0 = [] then ''0'' else a0) in
      case Atoi a of
        None \<Rightarrow> ''0''
      | Some aVal \<Rightarrow>
          (let b = (if b0 = [] then ''0'' else b0) in
           case Atoi b of
             None \<Rightarrow> ''0''
           | Some bVal \<Rightarrow> Itoa (aVal + bVal)))"

definition updateCampaignMetrics ::
  "'f float64 \<Rightarrow> 'f CampaignInsight \<Rightarrow> 'f CampaignInsight \<Rightarrow> 'f CampaignInsight"
where
  "updateCampaignMetrics fl existing adding =
     existing
       \<lparr>Impressions_campaign := sumStringInts (Impressions_campaign existing) (Impressions_campaign adding),
        Reach_campaign := sumStringInts (Reach_campaign existing) (Reach_campaign adding),
        Clicks := sumStringInts (Clicks existing) (Clicks adding),
        Result_campaign := Result_campaign existing + Result_campaign adding,
        Spend_campaign := fadd fl (Spend_campaign existing) (Spend_campaign adding)\<rparr>"

definition calculateDerivedMetrics ::
  "'f float64 \<Rightarrow> 'f AdAccountMetrics \<Rightarrow> 64 word \<Rightarrow> 64 word \<Rightarrow> 64 word \<Rightarrow> 'f \<Rightarrow> 'f AdAccountMetrics"
where
  "calculateDerivedMetrics fl metrics totalImpression totalReach totalResults totalSpend =
     (let m1 = metrics
            \<lparr>Impressions := totalImpression,
             Reach := totalReach,
             Result := totalResults,
             Spend := RoundWithTwoDecimalPlace fl totalSpend\<rparr>;
          m2 = (if 0 < sint totalResults
                then m1\<lparr>CostPerResult :=
                          RoundWithTwoDecimalPlace fl (fdiv fl totalSpend (ofInt fl totalResults))\<rparr>
                else m1)
      in if 0 < sint totalReach
         then m2\<lparr>Frequency :=
                   RoundWithTwoDecimalPlace fl (fdiv fl (ofInt fl totalImpression) (ofInt fl totalReach))\<rparr>
         else m2)"

text \<open>
  The loop of \<open>combineAdMetrics\<close> updates four totals, the two per-date maps and the
  campaign map; the record below is that loop state. \<open>m[date] += x\<close> reads the zero value
  for a missing key. The campaign map is kept in insertion order; the order in which Go
  ranges over a map, and so the order of the combined campaigns, is unspecified.
\<close>

record 'f combine_state =
  totalImpression :: "64 word"
  totalReach :: "64 word"
  totalResults :: "64 word"
  totalSpend :: 'f
  costPerResultByDate :: "string \<rightharpoonup> 'f"
  resultByDate :: "string \<rightharpoonup> 64 word"
  campaignMap :: "(string \<times> 'f CampaignInsight) list"

definition mergeCampaign ::
  "'f float64 \<Rightarrow> (string \<times> 'f CampaignInsight) list \<Rightarrow> 'f CampaignInsight
   \<Rightarrow> (string \<times> 'f CampaignInsight) list"
where
  "mergeCampaign fl cm campaign =
     (case map_of cm (CampaignID campaign) of
        None \<Rightarrow> cm @ [(CampaignID campaign, campaign)]
      | Some existingCampaign \<Rightarrow>
          map (\<lambda>(k, c). if k = CampaignID campaign
                         then (k, updateCampaignMetrics fl c campaign) else (k, c)) cm)"

definition combineStep :: "'f float64 \<Rightarrow> 'f combine_state \<Rightarrow> 'f AdInsightEntry \<Rightarrow> 'f combine_state" where
  "combineStep fl st insight =
     (case AdMetrics insight of
        None \<Rightarrow> st
      | Some m \<Rightarrow>
          (let date = Format_DateOnly (Date_adEntry insight) in
           st\<lparr>totalImpression := totalImpression st + Impressions m,
              totalReach := totalReach st + Reach m,
              totalResults := totalResults st + Result m,
              totalSpend := fadd fl (totalSpend st) (Spend m),
              costPerResultByDate := (costPerResultByDate st)
                (date \<mapsto> fadd fl (case costPerResultByDate st date of None \<Rightarrow> fzero fl | Some v \<Rightarrow> v)
                               (CostPerResult m)),
              resultByDate := (resultByDate st)
                (date \<mapsto> (case resultByDate st date of None \<Rightarrow> 0 | Some v \<Rightarrow> v) + Result m),
              campaignMap := foldl (mergeCampaign fl) (campaignMap st) (Campaigns m)\<rparr>))"

definition finishCampaign :: "'f float64 \<Rightarrow> 'f CampaignInsight \<Rightarrow> 'f CampaignInsight option" where
  \<comment> \<open>the body of the loop over the campaign map; \<open>None\<close> is its \<open>continue\<close>\<close>
  "finishCampaign fl campaign =
     (case Atoi (Impressions_campaign campaign) of
        None \<Rightarrow> None
      | Some impressionsVal \<Rightarrow>
          (case Atoi (Reach_campaign campaign) of
             None \<Rightarrow> None
           | Some reachVal \<Rightarrow>
               (let c1 = (if 0 < sint (Result_campaign campaign)
                          then campaign\<lparr>CostPerResult_campaign :=
                                 RoundWithTwoDecimalPlace fl
                                   (fdiv fl (Spend_campaign campaign) (ofInt fl (Result_campaign campaign)))\<rparr>
                          else campaign);
                    c2 = (if 0 < sint reachVal
                          then c1\<lparr>Frequency_campaign :=
                                 formatFloat fl (RoundWithTwoDecimalPlace fl
                                   (fdiv fl (ofInt fl impressionsVal) (ofInt fl reachVal)))\<rparr>
                          else c1)
                in Some (c2\<lparr>Spend_campaign := RoundWithTwoDecimalPlace fl (Spend_campaign c2)\<rparr>))))"

definition combineAdMetrics ::
  "'f float64 \<Rightarrow> 'f AdInsightEntry list \<Rightarrow> panic + 'f AdAccountMetrics option"
where
  \<comment> \<open>\<open>Inr None\<close> is the \<open>nil\<close> returned for an empty slice; \<open>adInsights[0].AdMetrics\<close>
      is dereferenced before the loop\<close>
  "combineAdMetrics fl adInsights =
     (case adInsights of
        [] \<Rightarrow> Inr None
      | first # _ \<Rightarrow>
          (case AdMetrics first of
             None \<Rightarrow> Inl NilPointerDereference
           | Some firstMetrics \<Rightarrow>
               (let date0 = Format_DateOnly (Date_adEntry first);
                    st0 = \<lparr>totalImpression = 0, totalReach = 0, totalResults = 0,
                           totalSpend = fzero fl,
                           costPerResultByDate = [date0 \<mapsto> CostPerResult firstMetrics],
                           resultByDate = [date0 \<mapsto> Result firstMetrics],
                           campaignMap = []\<rparr>;
                    st = foldl (combineStep fl) st0 adInsights;
                    combined =
                      \<lparr>AccountID_metrics = ExternalID_adEntry first,
                       Campaigns = List.map_filter (\<lambda>(k, c). finishCampaign fl c) (campaignMap st),
                       CostPerResult = fzero fl,
                       Frequency = fzero fl,
                       Impressions = 0,
                       Name_metrics = Name_metrics firstMetrics,
                       Objective = Objective firstMetrics,
                       Reach = 0,
                       Result = 0,
                       Spend = fzero fl,
                       CostPerResultByDate = costPerResultByDate st,
                       ResultByDate = resultByDate st\<rparr>
                in Inr (Some (calculateDerivedMetrics fl combined (totalImpression st)
                                (totalReach st) (totalResults st) (totalSpend st))))))"

record 'f originAggregator =
  totalRevenue :: 'f
  salesQuantity :: "64 word"
  sales :: "'f Sale list"

definition processOriginSalesMetrics :: "'f float64 \<Rightarrow> 'f originAggregator \<Rightarrow> 'f SalesMetrics" where
  "processOriginSalesMetrics fl originMetrics =
     (let averageTicket =
            (if 0 < sint (salesQuantity originMetrics)
             then fdiv fl (totalRevenue originMetrics) (ofInt fl (salesQuantity originMetrics))
             else fzero fl)
      in \<lparr>TotalRevenue = RoundWithTwoDecimalPlace fl (totalRevenue originMetrics),
          SalesQuantity = salesQuantity originMetrics,
          AverageTicket = RoundWithTwoDecimalPlace fl averageTicket,
          Sales = sales originMetrics\<rparr>)"

definition originAccumulator ::
  "'f float64 \<Rightarrow> string \<Rightarrow> 'f SalesInsightEntry list \<Rightarrow> 'f originAggregator option"
where
  \<comment> \<open>what the nested loops leave in \<open>originAccumulators[origin]\<close>: every entry adds to
      the accumulator of each of its origins, in the order of the entries\<close>
  "originAccumulator fl origin salesInsights =
     foldl (\<lambda>acc insight.
              case SalesMetrics_entry insight of
                None \<Rightarrow> acc
              | Some byOrigin \<Rightarrow>
                  (case byOrigin origin of
                     Some (Some metrics) \<Rightarrow>
                       (let accumulator =
                              (case acc of
                                 None \<Rightarrow> \<lparr>totalRevenue = fzero fl, salesQuantity = 0, sales = []\<rparr>
                               | Some a \<Rightarrow> a)
                        in Some \<lparr>totalRevenue = fadd fl (totalRevenue accumulator) (TotalRevenue metrics),
                                 salesQuantity = salesQuantity accumulator + SalesQuantity metrics,
                                 sales = sales accumulator @ Sales metrics\<rparr>)
                   | _ \<Rightarrow> acc))
           None salesInsights"

definition combineSalesMetrics ::
  "'f float64 \<Rightarrow> 'f SalesInsightEntry list \<Rightarrow> 'f sales_by_origin option"
where
  "combineSalesMetrics fl salesInsights =
     (if salesInsights = [] then None
      else Some (\<lambda>origin. map_option (\<lambda>a. Some (processOriginSalesMetrics fl a))
                             (originAccumulator fl origin salesInsights)))"

definition CalculateResultMetrics ::
  "'f float64 \<Rightarrow> 'f AdAccountMetrics option \<Rightarrow> 'f sales_by_origin option \<Rightarrow> 'f ResultMetrics option"
where
  "CalculateResultMetrics fl adMetrics salesMetrics =
     (case (adMetrics, salesMetrics) of
        (Some ad, Some byOrigin) \<Rightarrow>
          (case byOrigin SocialNetwork of
             Some (Some social) \<Rightarrow>
               (let conversion =
                      (if 0 < sint (Result ad)
                       then fmul fl (fdiv fl (ofInt fl (SalesQuantity social)) (ofInt fl (Result ad)))
                                    (ofInt fl 100)
                       else fzero fl);
                    roi = (if fgt fl (Spend ad) (fzero fl)
                           then fdiv fl (TotalRevenue social) (Spend ad) else fzero fl)
                in Some \<lparr>Conversion = RoundWithTwoDecimalPlace fl conversion,
                         ROI = Itoa (toInt fl roi) @ ''x''\<rparr>)
           | _ \<Rightarrow> None)
      | _ \<Rightarrow> None)"

subsection \<open>Collaborators and effects\<close>

text \<open>
  The account repository, the two insight repositories, the Meta integrator and the SSOtica
  integrator are interfaces of the service: a record of their operations, each returning its
  error (\<open>Inl\<close>) or its value. Every call of one of them is recorded as an event; a
  function of the service returns its result together with the events of its calls. The
  error of \<open>SaveOrUpdate\<close> is logged and changes nothing else, so the event is all that is
  kept of a save. \<open>ParseDateOnly\<close> is \<open>time.Parse(time.DateOnly, s)\<close>.
\<close>

datatype 'f io_event =
    AccountLookup string
  | AdRangeQuery string Time Time
  | AdFetch string InsigthFilters
  | AdSave "'f AdInsightEntry"
  | SalesRangeQuery string Time Time
  | SalesFetch string string InsigthFilters
  | SalesSave "'f SalesInsightEntry"
  | ReachFetch string InsigthFilters

record 'f insight_deps =
  GetAccountByExternalID :: "string \<Rightarrow> error + AdAccount option"
  AdGetByDateRange :: "string \<Rightarrow> Time \<Rightarrow> Time \<Rightarrow> error + 'f AdInsightEntry list"
  SalesGetByDateRange :: "string \<Rightarrow> Time \<Rightarrow> Time \<Rightarrow> error + 'f SalesInsightEntry list"
  GetAdAccountsInsights :: "string \<Rightarrow> InsigthFilters \<Rightarrow> error + 'f AdAccountMetrics option"
  MetaReachImpressions :: "string \<Rightarrow> InsigthFilters \<Rightarrow> error + ReachImpressionsResponse option"
  SSOticaSalesByAccount :: "string \<Rightarrow> string \<Rightarrow> InsigthFilters \<Rightarrow> error + 'f Order list"
  ParseDateOnly :: "string \<Rightarrow> error + Time"

datatype 'a outcome = Panicked panic | Failed error | Done 'a

definition i_acute :: string where "i_acute = [CHR 0xC3, CHR 0xAD]"
definition a_grave :: string where "a_grave = [CHR 0xC3, CHR 0xA0]"

subsection \<open>Sales metrics of one request\<close>

fun countSales ::
  "'f insight_deps \<Rightarrow> 'f float64 \<Rightarrow> string \<Rightarrow> 'f Order list \<Rightarrow> 'f \<times> 'f Sale list
   \<Rightarrow> error + ('f \<times> 'f Sale list)"
where
  \<comment> \<open>the loop of \<open>getSalesMetricsByOrigin\<close> over the sales, with \<open>totalRevenue\<close> (here \<open>revenue\<close>) and
      \<open>domainSales\<close> so far\<close>
  "countSales deps fl origin [] acc = Inr acc"
| "countSales deps fl origin (sale # rest) (revenue, domainSales) =
     (let isSocialNetworkSearch = (origin = SocialNetworkOrigin);
          isOthersSearch = (origin = OthersOrigin);
          firstIsSocial =
            (case CustomerOrigins sale of [] \<Rightarrow> False | c # _ \<Rightarrow> c \<in> set SocialNetworkOrigins);
          shouldCount =
            (if isSocialNetworkSearch then firstIsSocial
             else if isOthersSearch then \<not> firstIsSocial else False)
      in if shouldCount then
           (case ParseDateOnly deps (Date_order sale) of
              Inl err \<Rightarrow> Inl err
            | Inr date \<Rightarrow>
                countSales deps fl origin rest
                  (fadd fl revenue (NetAmount_order sale),
                   domainSales @ [\<lparr>Date_sale = Some date, NetAmount_sale = NetAmount_order sale\<rparr>]))
         else countSales deps fl origin rest (revenue, domainSales))"

definition getSalesMetricsByOrigin ::
  "'f insight_deps \<Rightarrow> 'f float64 \<Rightarrow> string \<Rightarrow> 'f Order list \<Rightarrow> error + 'f SalesMetrics"
where
  "getSalesMetricsByOrigin deps fl origin sales0 =
     (case countSales deps fl origin sales0 (fzero fl, []) of
        Inl err \<Rightarrow> Inl err
      | Inr (totalRevenue0, domainSales) \<Rightarrow>
          (let salesQuantity0 = (word_of_nat (length domainSales) :: 64 word);
               averageTicket =
                 (if 0 < sint salesQuantity0
                  then RoundWithTwoDecimalPlace fl (fdiv fl totalRevenue0 (ofInt fl salesQuantity0))
                  else fzero fl)
           in Inr \<lparr>TotalRevenue = RoundWithTwoDecimalPlace fl totalRevenue0,
                   SalesQuantity = salesQuantity0,
                   AverageTicket = averageTicket,
                   Sales = domainSales\<rparr>))"

definition GetSalesMetrics ::
  "'f insight_deps \<Rightarrow> 'f float64 \<Rightarrow> string \<Rightarrow> string \<Rightarrow> InsigthFilters
   \<Rightarrow> (error + 'f sales_by_origin) \<times> 'f io_event list"
where
  \<comment> \<open>its callers here pass filters whose two dates are set\<close>
  "GetSalesMetrics deps fl cnpj secretName filters =
     (case SSOticaSalesByAccount deps cnpj secretName filters of
        Inl err \<Rightarrow> Inl err
      | Inr sales0 \<Rightarrow>
          (case getSalesMetricsByOrigin deps fl SocialNetworkOrigin sales0 of
             Inl err \<Rightarrow> Inl err
           | Inr salesMetricsSocialNetwork \<Rightarrow>
               (case getSalesMetricsByOrigin deps fl OthersOrigin sales0 of
                  Inl err \<Rightarrow> Inl err
                | Inr salesMetricsOthers \<Rightarrow>
                    Inr [SocialNetwork \<mapsto> Some salesMetricsSocialNetwork,
                         Store \<mapsto> Some salesMetricsOthers])),
      [SalesFetch cnpj secretName filters])"

subsection \<open>Cache fill\<close>

text \<open>
  One goroutine per missing date fetches that date, saves the entry unless the date prints
  as the day \<open>time.Now()\<close> prints, and appends the entry to the result under a mutex. The
  goroutines finish in any order; the model runs them in the order of the missing dates, and
  \<open>nowAt i\<close> is what \<open>time.Now()\<close> returns to the goroutine of the \<open>i\<close>-th missing date.
\<close>

fun fetchMissingAd ::
  "'f insight_deps \<Rightarrow> (nat \<Rightarrow> Time) \<Rightarrow> AdAccount \<Rightarrow> string \<Rightarrow> nat \<Rightarrow> Time list
   \<Rightarrow> 'f AdInsightEntry list \<times> 'f io_event list"
where
  "fetchMissingAd deps nowAt account accountExternalID i [] = ([], [])"
| "fetchMissingAd deps nowAt account accountExternalID i (date # dates) =
     (let dailyFilter = \<lparr>StartDate = Some date, EndDate = Some date\<rparr>;
          later = fetchMissingAd deps nowAt account accountExternalID (Suc i) dates
      in case GetAdAccountsInsights deps accountExternalID dailyFilter of
           Inl err \<Rightarrow> (fst later, AdFetch accountExternalID dailyFilter # snd later)
         | Inr adMetrics \<Rightarrow>
             (let adInsight = \<lparr>AccountID_adEntry = ID account,
                               ExternalID_adEntry = accountExternalID,
                               Date_adEntry = date,
                               AdMetrics = adMetrics\<rparr>
              in if Format_DateOnly date \<noteq> Format_DateOnly (nowAt i)
                 then (adInsight # fst later,
                       AdFetch accountExternalID dailyFilter # AdSave adInsight # snd later)
                 else (adInsight # fst later,
                       AdFetch accountExternalID dailyFilter # snd later)))"

definition cachedAdInsights :: "'f insight_deps \<Rightarrow> AdAccount \<Rightarrow> Time \<Rightarrow> Time \<Rightarrow> 'f AdInsightEntry list" where
  \<comment> \<open>step 1: the entries of the period the repository returns; none when the query fails\<close>
  "cachedAdInsights deps account startDate endDate =
     (case AdGetByDateRange deps (ID account) startDate endDate of
        Inl err \<Rightarrow> []
      | Inr periodAdInsights \<Rightarrow> periodAdInsights)"

definition missingAdDates ::
  "'f insight_deps \<Rightarrow> AdAccount \<Rightarrow> Time \<Rightarrow> Time \<Rightarrow> Time list \<Rightarrow> Time list"
where
  \<comment> \<open>step 2: the requested dates whose day no returned entry has\<close>
  "missingAdDates deps account startDate endDate allDates =
     (let existingAdDates =
            map (\<lambda>insight. Format_DateOnly (Date_adEntry insight))
              (cachedAdInsights deps account startDate endDate)
      in filter (\<lambda>date. Format_DateOnly date \<notin> set existingAdDates) allDates)"

definition getAdMetricsWithCache ::
  "'f insight_deps \<Rightarrow> (nat \<Rightarrow> Time) \<Rightarrow> AdAccount \<Rightarrow> string \<Rightarrow> Time \<Rightarrow> Time \<Rightarrow> Time list
   \<Rightarrow> 'f AdInsightEntry list \<times> 'f io_event list"
where
  \<comment> \<open>\<open>startDate\<close> and \<open>endDate\<close> are \<open>*filters.StartDate\<close> and \<open>*filters.EndDate\<close>,
      which the caller has checked\<close>
  "getAdMetricsWithCache deps nowAt account accountExternalID startDate endDate allDates =
     (let fetched = fetchMissingAd deps nowAt account accountExternalID 0
                      (missingAdDates deps account startDate endDate allDates)
      in (cachedAdInsights deps account startDate endDate @ fst fetched,
          AdRangeQuery (ID account) startDate endDate # snd fetched))"

fun fetchMissingSales ::
  "'f insight_deps \<Rightarrow> 'f float64 \<Rightarrow> (nat \<Rightarrow> Time) \<Rightarrow> AdAccount \<Rightarrow> string \<Rightarrow> string \<Rightarrow> nat
   \<Rightarrow> Time list \<Rightarrow> 'f SalesInsightEntry list \<times> 'f io_event list"
where
  "fetchMissingSales deps fl nowAt account cnpj secretName i [] = ([], [])"
| "fetchMissingSales deps fl nowAt account cnpj secretName i (date # dates) =
     (let dailyFilter = \<lparr>StartDate = Some date, EndDate = Some date\<rparr>;
          later = fetchMissingSales deps fl nowAt account cnpj secretName (Suc i) dates;
          fetch = GetSalesMetrics deps fl cnpj secretName dailyFilter
      in case fst fetch of
           Inl err \<Rightarrow> (fst later, snd fetch @ snd later)
         | Inr salesMetrics \<Rightarrow>
             if dom salesMetrics = {} then (fst later, snd fetch @ snd later)
             else
               (let salesInsight = \<lparr>AccountID_salesEntry = ID account,
                                    Date_salesEntry = date,
                                    SalesMetrics_entry = Some salesMetrics\<rparr>
                in if Format_DateOnly date \<noteq> Format_DateOnly (nowAt i)
                   then (salesInsight # fst later, snd fetch @ SalesSave salesInsight # snd later)
                   else (salesInsight # fst later, snd fetch @ snd later)))"

definition cachedSalesInsights ::
  "'f insight_deps \<Rightarrow> AdAccount \<Rightarrow> Time \<Rightarrow> Time \<Rightarrow> 'f SalesInsightEntry list"
where
  "cachedSalesInsights deps account startDate endDate =
     (case SalesGetByDateRange deps (ID account) startDate endDate of
        Inl err \<Rightarrow> []
      | Inr periodSalesInsights \<Rightarrow> periodSalesInsights)"

definition missingSalesDates ::
  "'f insight_deps \<Rightarrow> AdAccount \<Rightarrow> Time \<Rightarrow> Time \<Rightarrow> Time list \<Rightarrow> Time list"
where
  "missingSalesDates deps account startDate endDate allDates =
     (let existingSalesDates =
            map (\<lambda>insight. Format_DateOnly (Date_salesEntry insight))
              (cachedSalesInsights deps account startDate endDate)
      in filter (\<lambda>date. Format_DateOnly date \<notin> set existingSalesDates) allDates)"

definition getSalesMetricsWithCache ::
  "'f insight_deps \<Rightarrow> 'f float64 \<Rightarrow> (nat \<Rightarrow> Time) \<Rightarrow> AdAccount \<Rightarrow> Time \<Rightarrow> Time \<Rightarrow> Time list
   \<Rightarrow> 'f SalesInsightEntry list \<times> 'f io_event list"
where
  "getSalesMetricsWithCache deps fl nowAt account startDate endDate allDates =
     (let missing = missingSalesDates deps account startDate endDate allDates;
          fetched =
            (case (CNPJ account, SecretName account) of
               (Some cnpj, Some secretName) \<Rightarrow>
                 if missing \<noteq> [] \<and> cnpj \<noteq> [] \<and> secretName \<noteq> []
                 then fetchMissingSales deps fl nowAt account cnpj secretName 0 missing
                 else ([], [])
             | _ \<Rightarrow> ([], []))
      in (cachedSalesInsights deps account startDate endDate @ fst fetched,
          SalesRangeQuery (ID account) startDate endDate # snd fetched))"

subsection \<open>The requests\<close>

function datesUpTo :: "Time \<Rightarrow> Time \<Rightarrow> Time list" where
  \<comment> \<open>the loop \<open>for !currentDate.After(endDateTime)\<close> of \<open>generateDateRange\<close>\<close>
  "datesUpTo currentDate endDateTime =
     (if After currentDate endDateTime then []
      else currentDate # datesUpTo (AddDays currentDate 1) endDateTime)"
  by pat_completeness auto
termination
  by (relation "measure (\<lambda>(c, e). nat (nsec e - nsec c + 1))")
     (auto simp: After_def AddDays_def)

definition generateDateRange :: "Time option \<Rightarrow> Time option \<Rightarrow> Time list" where
  "generateDateRange startDate endDate =
     (case (startDate, endDate) of
        (Some s, Some e) \<Rightarrow>
          if After s e then [] else datesUpTo (startOfDay s) (startOfDay e)
      | _ \<Rightarrow> [])"

definition hasCredentials :: "AdAccount \<Rightarrow> bool" where
  \<comment> \<open>\<open>account.CNPJ != nil && *account.CNPJ != "" && account.SecretName != nil &&
      *account.SecretName != ""\<close>\<close>
  "hasCredentials account =
     (case (CNPJ account, SecretName account) of
        (Some cnpj, Some secretName) \<Rightarrow> cnpj \<noteq> [] \<and> secretName \<noteq> []
      | _ \<Rightarrow> False)"

definition socialPresent :: "'f sales_by_origin option \<Rightarrow> bool" where
  \<comment> \<open>\<open>insights.SalesMetrics != nil && insights.SalesMetrics[domain.SocialNetwork] != nil\<close>\<close>
  "socialPresent salesMetrics =
     (case salesMetrics of
        None \<Rightarrow> False
      | Some byOrigin \<Rightarrow> (case byOrigin SocialNetwork of Some (Some m) \<Rightarrow> True | _ \<Rightarrow> False))"

definition GetAdAccountsByIDWithCache ::
  "'f insight_deps \<Rightarrow> 'f float64 \<Rightarrow> (nat \<Rightarrow> Time) \<Rightarrow> (nat \<Rightarrow> Time) \<Rightarrow> AdAccount \<Rightarrow> string
   \<Rightarrow> InsigthFilters \<Rightarrow> Time \<Rightarrow> Time
   \<Rightarrow> 'f AdAccountInsightsResponse outcome \<times> 'f io_event list"
where
  \<comment> \<open>the two goroutines work on different repositories; their events are listed one
      goroutine after the other\<close>
  "GetAdAccountsByIDWithCache deps fl nowAtAd nowAtSales account accountExternalID filters
       startDate endDate =
     (let allDates = generateDateRange (Some startDate) (Some endDate) in
      if allDates = [] then
        (Failed (''per'' @ i_acute @ ''odo de datas inv'' @ a_acute @ ''lido''), [])
      else
        (let ad = getAdMetricsWithCache deps nowAtAd account accountExternalID startDate endDate
                    allDates;
             sal = (if hasCredentials account
                    then getSalesMetricsWithCache deps fl nowAtSales account startDate endDate
                           allDates
                    else ([], []));
             events = snd ad @ snd sal
         in case (if fst ad \<noteq> [] then combineAdMetrics fl (fst ad) else Inr None) of
              Inl p \<Rightarrow> (Panicked p, events)
            | Inr combinedAdMetrics \<Rightarrow>
                (let combinedSalesMetrics =
                       (if fst sal \<noteq> [] then combineSalesMetrics fl (fst sal) else None);
                     resultMetrics =
                       (if combinedAdMetrics \<noteq> None \<and> socialPresent combinedSalesMetrics
                        then CalculateResultMetrics fl combinedAdMetrics combinedSalesMetrics
                        else None)
                 in (Done \<lparr>AdAccountMetrics_response = combinedAdMetrics,
                           SalesMetrics_response = combinedSalesMetrics,
                           ResultMetrics_response = resultMetrics,
                           Filters = filters\<rparr>,
                     events))))"

definition GetAdAccountsByIDWithoutCache ::
  "'f insight_deps \<Rightarrow> 'f float64 \<Rightarrow> AdAccount \<Rightarrow> string \<Rightarrow> InsigthFilters
   \<Rightarrow> 'f AdAccountInsightsResponse outcome \<times> 'f io_event list"
where
  "GetAdAccountsByIDWithoutCache deps fl account accountExternalID filters =
     (let adAccountMetrics =
            (case GetAdAccountsInsights deps accountExternalID filters of
               Inl err \<Rightarrow> None
             | Inr m \<Rightarrow> m);
          sal =
            (case (CNPJ account, SecretName account) of
               (Some cnpj, Some secretName) \<Rightarrow>
                 (let fetch = GetSalesMetrics deps fl cnpj secretName filters in
                  case fst fetch of
                    Inl err \<Rightarrow> (None, snd fetch)
                  | Inr salesMetrics \<Rightarrow>
                      if dom salesMetrics = {} then (None, snd fetch)
                      else (Some salesMetrics, snd fetch))
             | _ \<Rightarrow> (None, []));
          resultMetrics =
            (if socialPresent (fst sal) \<and> adAccountMetrics \<noteq> None
             then CalculateResultMetrics fl adAccountMetrics (fst sal)
             else None)
      in (Done \<lparr>AdAccountMetrics_response = adAccountMetrics,
                SalesMetrics_response = fst sal,
                ResultMetrics_response = resultMetrics,
                Filters = filters\<rparr>,
          AdFetch accountExternalID filters # snd sal))"

definition datesRequired :: error where
  "datesRequired =
     e_acute @ '' necess'' @ a_acute @ ''rio informar as datas de in'' @ i_acute @ ''cio e fim''"

definition startAfterEnd :: error where
  "startAfterEnd =
     ''a data de in'' @ i_acute @ ''cio n'' @ a_tilde @ ''o pode ser posterior '' @ a_grave
     @ '' data de fim''"

definition GetAdAccountsByID ::
  "'f insight_deps \<Rightarrow> 'f float64 \<Rightarrow> (nat \<Rightarrow> Time) \<Rightarrow> (nat \<Rightarrow> Time) \<Rightarrow> bool \<Rightarrow> string
   \<Rightarrow> InsigthFilters option
   \<Rightarrow> 'f AdAccountInsightsResponse outcome \<times> 'f io_event list"
where
  \<comment> \<open>\<open>useCache\<close> is the field of the service that \<open>WithCache\<close> sets\<close>
  "GetAdAccountsByID deps fl nowAtAd nowAtSales useCache accountID filters =
     (case filters of
        None \<Rightarrow> (Failed datesRequired, [])
      | Some f \<Rightarrow>
          (case (StartDate f, EndDate f) of
             (Some startDate, Some endDate) \<Rightarrow>
               if After startDate endDate then (Failed startAfterEnd, [])
               else
                 (case GetAccountByExternalID deps accountID of
                    Inl err \<Rightarrow> (Failed err, [AccountLookup accountID])
                  | Inr None \<Rightarrow>
                      (Failed (''conta n'' @ a_tilde @ ''o encontrada: '' @ accountID),
                       [AccountLookup accountID])
                  | Inr (Some account) \<Rightarrow>
                      (let r = (if useCache
                                then GetAdAccountsByIDWithCache deps fl nowAtAd nowAtSales account
                                       accountID f startDate endDate
                                else GetAdAccountsByIDWithoutCache deps fl account accountID f)
                       in (fst r, AccountLookup accountID # snd r)))
           | _ \<Rightarrow> (Failed datesRequired, [])))"

definition GetAdAccountReachImpressions ::
  "'f insight_deps \<Rightarrow> string \<Rightarrow> InsigthFilters option
   \<Rightarrow> ReachImpressionsResponse option outcome \<times> 'f io_event list"
where
  "GetAdAccountReachImpressions deps accountID filters =
     (case filters of
        None \<Rightarrow> (Failed datesRequired, [])
      | Some f \<Rightarrow>
          (case (StartDate f, EndDate f) of
             (Some startDate, Some endDate) \<Rightarrow>
               if After startDate endDate then (Failed startAfterEnd, [])
               else
                 (case MetaReachImpressions deps accountID f of
                    Inl err \<Rightarrow> (Failed err, [ReachFetch accountID f])
                  | Inr metrics \<Rightarrow> (Done metrics, [ReachFetch accountID f]))
           | _ \<Rightarrow> (Failed datesRequired, [])))"

section \<open>Values for the worked examples\<close>

definition day1 :: Time where
  \<comment> \<open>2024-05-13 00:00 UTC\<close>
  "day1 = midnightOf 19856 0"

definition day2 :: Time where
  \<comment> \<open>2024-05-14 00:00 UTC\<close>
  "day2 = midnightOf 19857 0"

definition noon2 :: Time where
  \<comment> \<open>2024-05-14 12:00 UTC\<close>
  "noon2 = Add day2 (12 * Hour)"

definition example_account :: AdAccount where
  "example_account =
     \<lparr>BusinessManagerID = ''bm1'', BusinessManagerName = ''Business'', CNPJ = Some ''12345678901'',
      ExternalID_account = ''act1'', ID = ''ACC001'', Name_account = ''Loja A'',
      Nickname = Some ''A'', Origin = ''meta'', SecretName = Some ''secret1'',
      Status = ''ACTIVE''\<rparr>"

definition example_metrics :: "int AdAccountMetrics" where
  "example_metrics =
     \<lparr>AccountID_metrics = ''act1'', Campaigns = [], CostPerResult = 10, Frequency = 2,
      Impressions = 1000, Name_metrics = ''Loja A'', Objective = ''SALES'', Reach = 500,
      Result = 10, Spend = 100, CostPerResultByDate = Map.empty, ResultByDate = Map.empty\<rparr>"

definition example_order :: "int Order" where
  "example_order =
     \<lparr>Date_order = ''2024-05-13'', NetAmount_order = 250, CustomerOrigins = [''Redes Sociais'']\<rparr>"

definition adEntryOf :: "Time \<Rightarrow> int AdInsightEntry" where
  "adEntryOf date =
     \<lparr>AccountID_adEntry = ''ACC001'', ExternalID_adEntry = ''act1'', Date_adEntry = date,
      AdMetrics = Some example_metrics\<rparr>"

definition emptyAdEntryOf :: "Time \<Rightarrow> int AdInsightEntry" where
  \<comment> \<open>a row whose \<open>ad_metrics\<close> column is NULL\<close>
  "emptyAdEntryOf date =
     \<lparr>AccountID_adEntry = ''ACC001'', ExternalID_adEntry = ''act1'', Date_adEntry = date,
      AdMetrics = None\<rparr>"

definition example_sales :: "int sales_by_origin" where
  "example_sales =
     [SocialNetwork \<mapsto>
        Some \<lparr>TotalRevenue = 250, SalesQuantity = 1, AverageTicket = 250,
              Sales = [\<lparr>Date_sale = Some day1, NetAmount_sale = 250\<rparr>]\<rparr>,
      Store \<mapsto> Some \<lparr>TotalRevenue = 0, SalesQuantity = 0, AverageTicket = 0, Sales = []\<rparr>]"

definition salesEntryOf :: "Time \<Rightarrow> int SalesInsightEntry" where
  "salesEntryOf date =
     \<lparr>AccountID_salesEntry = ''ACC001'', Date_salesEntry = date,
      SalesMetrics_entry = Some example_sales\<rparr>"

definition empty_store_deps :: "int insight_deps" where
  \<comment> \<open>nothing is cached; Meta and SSOtica answer every request\<close>
  "empty_store_deps =
     \<lparr>GetAccountByExternalID = (\<lambda>accountID. Inr (Some example_account)),
      AdGetByDateRange = (\<lambda>accountID startDate endDate. Inr []),
      SalesGetByDateRange = (\<lambda>accountID startDate endDate. Inr []),
      GetAdAccountsInsights = (\<lambda>accountID filters. Inr (Some example_metrics)),
      MetaReachImpressions = (\<lambda>accountID filters. Inl ''no data found''),
      SSOticaSalesByAccount = (\<lambda>cnpj secretName filters. Inr [example_order]),
      ParseDateOnly = (\<lambda>s. Inr day1)\<rparr>"

definition full_store_deps :: "int insight_deps" where
  \<comment> \<open>both days are cached\<close>
  "full_store_deps =
     empty_store_deps
       \<lparr>AdGetByDateRange := (\<lambda>accountID startDate endDate. Inr [adEntryOf day1, adEntryOf day2]),
        SalesGetByDateRange :=
          (\<lambda>accountID startDate endDate. Inr [salesEntryOf day1, salesEntryOf day2])\<rparr>"

definition example_cfg :: MetaConfig where
  "example_cfg =
     \<lparr>BaseURL = ''https://graph.facebook.com'', URL = ''https://graph.facebook.com/v19.0'',
      Version = ''v19.0'', AccessToken = ''token-1'', AppID = ''app'', AppSecret = ''secret'',
      LongLivedToken = ''token-1'', TokenExpiresAt = Add noon2 (48 * Hour),
      ServiceID = ''srv''\<rparr>"

definition example_env :: token_env where
  \<comment> \<open>the clock stands at noon of day 2; every exchange is answered with a new token
      that lives 60 days\<close>
  "example_env =
     \<lparr>clock = (\<lambda>n. noon2),
      exchange = (\<lambda>n tok. Response 200 ''{...}''),
      decodeTokenResponse =
        (\<lambda>body. Inr \<lparr>AccessToken_response = ''token-2'', TokenType = ''bearer'',
                       ExpiresIn = 5184000\<rparr>)\<rparr>"

definition fresh_state :: token_state where
  \<comment> \<open>48 hours of validity left\<close>
  "fresh_state = \<lparr>cfg = example_cfg, calls = [], clockReads = 0\<rparr>"

definition expiring_state :: token_state where
  \<comment> \<open>one hour of validity left\<close>
  "expiring_state =
     \<lparr>cfg = example_cfg\<lparr>TokenExpiresAt := Add noon2 Hour\<rparr>, calls = [], clockReads = 0\<rparr>"

definition account_A :: AdAccount where
  "account_A = example_account"

definition account_B :: AdAccount where
  "account_B =
     example_account\<lparr>CNPJ := Some ''12345678902'', ID := ''ACC002'', Name_account := ''Loja B'',
                      SecretName := Some ''secret2''\<rparr>"

definition account_C :: AdAccount where
  "account_C =
     example_account\<lparr>CNPJ := Some ''12345678903'', ID := ''ACC003'', Name_account := ''Loja C'',
                      SecretName := Some ''secret3''\<rparr>"

definition socialOrder :: "int \<Rightarrow> int Order" where
  "socialOrder amount =
     \<lparr>Date_order = ''2024-05-02'', NetAmount_order = amount, CustomerOrigins = [''Redes Sociais'']\<rparr>"

definition rankingRow :: "string \<Rightarrow> string \<Rightarrow> int \<Rightarrow> int \<Rightarrow> int \<Rightarrow> int \<Rightarrow> int StoreRankingItem" where
  "rankingRow accountID storeName revenue position change previous =
     \<lparr>AccountID_ranking = accountID, Month = ''05-2024'', StoreName = storeName,
      SocialNetworkRevenue = revenue, Position = position, PositionChange = change,
      PreviousPosition = previous\<rparr>"

definition first_run_deps :: "int ranking_deps" where
  \<comment> \<open>no ranking is stored yet; the month's social-network sales are 3000, 2500 and 1500\<close>
  "first_run_deps =
     \<lparr>GetByAccountID = (\<lambda>accountID month. Inr None),
      GetSalesByAccount =
        (\<lambda>cnpj secretName startDate endDate.
           Inr [socialOrder (if cnpj = ''12345678901'' then 3000
                             else if cnpj = ''12345678902'' then 2500 else 1500)]),
      SaveOrUpdateStoreRanking = (\<lambda>rankings. None)\<rparr>"

definition overtaking_deps :: "int ranking_deps" where
  \<comment> \<open>stored: Loja A at position 1, Loja B at position 2; now B has sold more than A\<close>
  "overtaking_deps =
     \<lparr>GetByAccountID =
        (\<lambda>accountID month.
           if accountID = ''ACC001'' then Inr (Some (rankingRow ''ACC001'' ''Loja A'' 3000 1 0 0))
           else if accountID = ''ACC002'' then Inr (Some (rankingRow ''ACC002'' ''Loja B'' 2500 2 0 0))
           else Inr None),
      GetSalesByAccount =
        (\<lambda>cnpj secretName startDate endDate.
           Inr [socialOrder (if cnpj = ''12345678901'' then 3000 else 3500)]),
      SaveOrUpdateStoreRanking = (\<lambda>rankings. None)\<rparr>"

definition tie_deps :: "int ranking_deps" where
  \<comment> \<open>no ranking is stored yet; every account has sold 1000\<close>
  "tie_deps =
     \<lparr>GetByAccountID = (\<lambda>accountID month. Inr None),
      GetSalesByAccount = (\<lambda>cnpj secretName startDate endDate. Inr [socialOrder 1000]),
      SaveOrUpdateStoreRanking = (\<lambda>rankings. None)\<rparr>"

lemma GetLongLivedToken_calls:
  "tok \<noteq> [] \<Longrightarrow> calls (snd (GetLongLivedToken env st tok)) = calls st @ [TokenExchange tok]"
  by (simp add: GetLongLivedToken_def Let_def split: http_reply.split sum.split)

lemma GetLongLivedToken_cfg:
  "cfg (snd (GetLongLivedToken env st tok)) = cfg st"
  by (simp add: GetLongLivedToken_def Let_def split: http_reply.split sum.split)

lemma GetLongLivedToken_Inr:
  "GetLongLivedToken env st tok = (Inr r, st') \<Longrightarrow> AccessToken_response r \<noteq> []"
  by (auto simp: GetLongLivedToken_def Let_def split: http_reply.splits sum.splits if_splits)

lemma Now_calls: "calls (snd (Now env st)) = calls st" "cfg (snd (Now env st)) = cfg st"
  by (simp_all add: Now_def)

lemma refresh_calls:
  assumes "AccessToken (cfg st) \<noteq> []"
  shows "calls (snd (refreshTokenInternal env st)) = calls st @ [TokenExchange (AccessToken (cfg st))]"
proof -
  define st1 where "st1 = (if IsZero (TokenExpiresAt (cfg st)) then st else snd (Now env st))"
  have c1: "calls st1 = calls st" and g1: "cfg st1 = cfg st"
    by (simp_all add: st1_def Now_calls)
  obtain r st2 where g: "GetLongLivedToken env st1 (AccessToken (cfg st1)) = (r, st2)"
    by (cases "GetLongLivedToken env st1 (AccessToken (cfg st1))")
  have c2: "calls st2 = calls st @ [TokenExchange (AccessToken (cfg st))]"
    using GetLongLivedToken_calls [of "AccessToken (cfg st1)" env st1] assms g c1 g1 by simp
  show ?thesis
    unfolding refreshTokenInternal_def st1_def [symmetric] Let_def g
    using c2 by (cases r) (simp_all add: Now_def)
qed

lemma refresh_token_nonempty:
  assumes "AccessToken (cfg st) \<noteq> []"
  shows "AccessToken (cfg (snd (refreshTokenInternal env st))) \<noteq> []"
proof -
  define st1 where "st1 = (if IsZero (TokenExpiresAt (cfg st)) then st else snd (Now env st))"
  have g1: "cfg st1 = cfg st"
    by (simp_all add: st1_def Now_calls)
  obtain r st2 where g: "GetLongLivedToken env st1 (AccessToken (cfg st1)) = (r, st2)"
    by (cases "GetLongLivedToken env st1 (AccessToken (cfg st1))")
  have c2: "cfg st2 = cfg st"
    using GetLongLivedToken_cfg [of env st1 "AccessToken (cfg st1)"] g g1 by simp
  show ?thesis
    unfolding refreshTokenInternal_def st1_def [symmetric] Let_def g
    using c2 assms g
    by (cases r) (auto simp add: Now_def dest: GetLongLivedToken_Inr)
qed

lemma exchanges_append: "exchanges (xs @ ys) = exchanges xs @ exchanges ys"
  by (simp add: exchanges_def)

text \<open>
Claim C2, as amended. \<open>refreshTokenInternal\<close> holds the mutex for its whole body and always exchanges the token, so calls of \<open>RefreshToken\<close> are not coalesced: starting with a non-empty access token, \<open>n\<close> calls make exactly \<open>n\<close> token exchanges, one each.
\<close>

theorem refreshTimes_exchanges:
  "AccessToken (cfg st) \<noteq> [] \<Longrightarrow>
   length (exchanges (calls (refreshTimes env n st))) = length (exchanges (calls st)) + n"
proof (induction n arbitrary: st)
  case 0
  then show ?case by simp
next
  case (Suc n)
  have "length (exchanges (calls (snd (RefreshToken env st)))) = length (exchanges (calls st)) + 1"
    using refresh_calls [OF Suc.prems] by (simp add: RefreshToken_def exchanges_append) (simp add: exchanges_def)
  moreover have "AccessToken (cfg (snd (RefreshToken env st))) \<noteq> []"
    using refresh_token_nonempty [OF Suc.prems] by (simp add: RefreshToken_def)
  ultimately show ?case using Suc.IH by simp
qed

text \<open>
Claim C7. With a non-empty access token, \<open>EnsureValidToken\<close> returns \<open>nil\<close> and leaves the token and the list of network calls as they were when at least 24 hours of validity remain (only the clock has been read); otherwise it makes exactly one network call, the token exchange for the current access token.
\<close>

theorem EnsureValidToken_calls:
  assumes "AccessToken (cfg st) \<noteq> []"
  shows "if 24 * Hour \<le> Until (clock env (clockReads st)) (TokenExpiresAt (cfg st))
         then EnsureValidToken env st = (None, st\<lparr>clockReads := Suc (clockReads st)\<rparr>)
         else calls (snd (EnsureValidToken env st)) = calls st @ [TokenExchange (AccessToken (cfg st))]"
  using assms refresh_calls [of "snd (Now env st)" env]
  by (auto simp: EnsureValidToken_def RefreshToken_def Now_def)

lemma fetchMissingAd_saves:
  "AdSave entry \<in> set (snd (fetchMissingAd deps nowAt account ext i dates)) \<Longrightarrow>
   \<exists>k < length dates. Date_adEntry entry = dates ! k \<and>
      Format_DateOnly (dates ! k) \<noteq> Format_DateOnly (nowAt (i + k))"
proof (induction dates arbitrary: i)
  case Nil
  then show ?case by simp
next
  case (Cons d ds)
  let ?later = "fetchMissingAd deps nowAt account ext (Suc i) ds"
  from Cons.prems consider
      (here) "Date_adEntry entry = d" "Format_DateOnly d \<noteq> Format_DateOnly (nowAt i)"
    | (there) "AdSave entry \<in> set (snd ?later)"
    by (auto simp: Let_def split: sum.splits if_splits)
  then show ?case
  proof cases
    case here
    then have "Date_adEntry entry = (d # ds) ! 0 \<and>
        Format_DateOnly ((d # ds) ! 0) \<noteq> Format_DateOnly (nowAt (i + 0))" by simp
    then show ?thesis by blast
  next
    case there
    from Cons.IH [OF there] obtain k where k: "k < length ds" "Date_adEntry entry = ds ! k"
      "Format_DateOnly (ds ! k) \<noteq> Format_DateOnly (nowAt (Suc i + k))" by blast
    then have "Suc k < length (d # ds) \<and> Date_adEntry entry = (d # ds) ! Suc k \<and>
        Format_DateOnly ((d # ds) ! Suc k) \<noteq> Format_DateOnly (nowAt (i + Suc k))" by simp
    then show ?thesis by blast
  qed
qed

lemma fetchMissingAd_result:
  "k < length dates \<Longrightarrow>
   GetAdAccountsInsights deps ext \<lparr>StartDate = Some (dates ! k), EndDate = Some (dates ! k)\<rparr> = Inr m \<Longrightarrow>
   \<lparr>AccountID_adEntry = ID account, ExternalID_adEntry = ext, Date_adEntry = dates ! k, AdMetrics = m\<rparr>
     \<in> set (fst (fetchMissingAd deps nowAt account ext i dates))"
proof (induction dates arbitrary: i k)
  case Nil
  then show ?case by simp
next
  case (Cons d ds)
  show ?case
  proof (cases k)
    case 0
    with Cons.prems show ?thesis by (simp add: Let_def)
  next
    case (Suc j)
    with Cons.prems have "j < length ds"
      "GetAdAccountsInsights deps ext \<lparr>StartDate = Some (ds ! j), EndDate = Some (ds ! j)\<rparr> = Inr m"
      by simp_all
    from Cons.IH [OF this, of "Suc i"] Suc show ?thesis
      by (simp add: Let_def split: sum.split)
  qed
qed

lemma fetchMissingAd_Nil: "fetchMissingAd deps nowAt account ext i [] = ([], [])"
  by simp

lemma GetSalesMetrics_events:
  "snd (GetSalesMetrics deps fl cnpj secretName filters) = [SalesFetch cnpj secretName filters]"
  by (simp add: GetSalesMetrics_def)

lemma GetSalesMetrics_dom:
  "fst (GetSalesMetrics deps fl cnpj secretName filters) = Inr m \<Longrightarrow> dom m \<noteq> {}"
  by (auto simp: GetSalesMetrics_def split: sum.splits)

lemma fetchMissingSales_saves:
  "SalesSave entry \<in> set (snd (fetchMissingSales deps fl nowAt account cnpj sec i dates)) \<Longrightarrow>
   \<exists>k < length dates. Date_salesEntry entry = dates ! k \<and>
      Format_DateOnly (dates ! k) \<noteq> Format_DateOnly (nowAt (i + k))"
proof (induction dates arbitrary: i)
  case Nil
  then show ?case by simp
next
  case (Cons d ds)
  let ?later = "fetchMissingSales deps fl nowAt account cnpj sec (Suc i) ds"
  from Cons.prems consider
      (here) "Date_salesEntry entry = d" "Format_DateOnly d \<noteq> Format_DateOnly (nowAt i)"
    | (there) "SalesSave entry \<in> set (snd ?later)"
    by (auto simp: Let_def GetSalesMetrics_events split: sum.splits if_splits)
  then show ?case
  proof cases
    case here
    then have "Date_salesEntry entry = (d # ds) ! 0 \<and>
        Format_DateOnly ((d # ds) ! 0) \<noteq> Format_DateOnly (nowAt (i + 0))" by simp
    then show ?thesis by blast
  next
    case there
    from Cons.IH [OF there] obtain k where k: "k < length ds" "Date_salesEntry entry = ds ! k"
      "Format_DateOnly (ds ! k) \<noteq> Format_DateOnly (nowAt (Suc i + k))" by blast
    then have "Suc k < length (d # ds) \<and> Date_salesEntry entry = (d # ds) ! Suc k \<and>
        Format_DateOnly ((d # ds) ! Suc k) \<noteq> Format_DateOnly (nowAt (i + Suc k))" by simp
    then show ?thesis by blast
  qed
qed

lemma fetchMissingSales_result:
  "k < length dates \<Longrightarrow>
   fst (GetSalesMetrics deps fl cnpj sec \<lparr>StartDate = Some (dates ! k), EndDate = Some (dates ! k)\<rparr>) = Inr m \<Longrightarrow>
   \<lparr>AccountID_salesEntry = ID account, Date_salesEntry = dates ! k, SalesMetrics_entry = Some m\<rparr>
     \<in> set (fst (fetchMissingSales deps fl nowAt account cnpj sec i dates))"
proof (induction dates arbitrary: i k)
  case Nil
  then show ?case by simp
next
  case (Cons d ds)
  show ?case
  proof (cases k)
    case 0
    with Cons.prems GetSalesMetrics_dom [of deps fl cnpj sec _ m] show ?thesis
      by (simp add: Let_def)
  next
    case (Suc j)
    with Cons.prems have "j < length ds"
      "fst (GetSalesMetrics deps fl cnpj sec \<lparr>StartDate = Some (ds ! j), EndDate = Some (ds ! j)\<rparr>) = Inr m"
      by simp_all
    from Cons.IH [OF this, of "Suc i"] Suc show ?thesis
      by (simp add: Let_def split: sum.split)
  qed
qed

text \<open>
Claim C1. A cache fill never saves a record for the current day. Every entry handed to \<open>SaveOrUpdate\<close> by \<open>getAdMetricsWithCache\<close> or \<open>getSalesMetricsWithCache\<close> is the entry of a missing date whose day differs from the day \<open>time.Now()\<close> showed to its goroutine; and every missing date whose fetch succeeds is in the returned list, saved or not, so the record of today is returned without being persisted.
\<close>

theorem cache_fill_never_saves_today:
  "(AdSave adEntry \<in> set (snd (getAdMetricsWithCache deps nowAtAd account ext startDate endDate allDates))
      \<longrightarrow> (\<exists>k < length (missingAdDates deps account startDate endDate allDates).
             Date_adEntry adEntry = missingAdDates deps account startDate endDate allDates ! k \<and>
             Format_DateOnly (Date_adEntry adEntry) \<noteq> Format_DateOnly (nowAtAd k)))
   \<and> (SalesSave salesEntry
         \<in> set (snd (getSalesMetricsWithCache deps fl nowAtSales account startDate endDate allDates))
      \<longrightarrow> (\<exists>k < length (missingSalesDates deps account startDate endDate allDates).
             Date_salesEntry salesEntry = missingSalesDates deps account startDate endDate allDates ! k \<and>
             Format_DateOnly (Date_salesEntry salesEntry) \<noteq> Format_DateOnly (nowAtSales k)))
   \<and> (i < length (missingAdDates deps account startDate endDate allDates) \<and>
       GetAdAccountsInsights deps ext
         \<lparr>StartDate = Some (missingAdDates deps account startDate endDate allDates ! i),
          EndDate = Some (missingAdDates deps account startDate endDate allDates ! i)\<rparr> = Inr m
      \<longrightarrow> \<lparr>AccountID_adEntry = ID account, ExternalID_adEntry = ext,
            Date_adEntry = missingAdDates deps account startDate endDate allDates ! i,
            AdMetrics = m\<rparr>
           \<in> set (fst (getAdMetricsWithCache deps nowAtAd account ext startDate endDate allDates)))
   \<and> (j < length (missingSalesDates deps account startDate endDate allDates) \<and>
       CNPJ account = Some cnpj \<and> cnpj \<noteq> [] \<and> SecretName account = Some sec \<and> sec \<noteq> [] \<and>
       fst (GetSalesMetrics deps fl cnpj sec
         \<lparr>StartDate = Some (missingSalesDates deps account startDate endDate allDates ! j),
          EndDate = Some (missingSalesDates deps account startDate endDate allDates ! j)\<rparr>) = Inr sm
      \<longrightarrow> \<lparr>AccountID_salesEntry = ID account,
            Date_salesEntry = missingSalesDates deps account startDate endDate allDates ! j,
            SalesMetrics_entry = Some sm\<rparr>
           \<in> set (fst (getSalesMetricsWithCache deps fl nowAtSales account startDate endDate allDates)))"
proof (intro conjI impI)
  assume "AdSave adEntry \<in> set (snd (getAdMetricsWithCache deps nowAtAd account ext startDate endDate allDates))"
  then have "AdSave adEntry \<in> set (snd (fetchMissingAd deps nowAtAd account ext 0
      (missingAdDates deps account startDate endDate allDates)))"
    by (simp add: getAdMetricsWithCache_def Let_def)
  from fetchMissingAd_saves [OF this]
  show "\<exists>k < length (missingAdDates deps account startDate endDate allDates).
      Date_adEntry adEntry = missingAdDates deps account startDate endDate allDates ! k \<and>
      Format_DateOnly (Date_adEntry adEntry) \<noteq> Format_DateOnly (nowAtAd k)"
    by auto
next
  assume a: "SalesSave salesEntry
    \<in> set (snd (getSalesMetricsWithCache deps fl nowAtSales account startDate endDate allDates))"
  then obtain c s where "SalesSave salesEntry \<in> set (snd (fetchMissingSales deps fl nowAtSales account c s 0
      (missingSalesDates deps account startDate endDate allDates)))"
    by (auto simp: getSalesMetricsWithCache_def Let_def split: option.splits if_splits)
  from fetchMissingSales_saves [OF this]
  show "\<exists>k < length (missingSalesDates deps account startDate endDate allDates).
      Date_salesEntry salesEntry = missingSalesDates deps account startDate endDate allDates ! k \<and>
      Format_DateOnly (Date_salesEntry salesEntry) \<noteq> Format_DateOnly (nowAtSales k)"
    by auto
next
  assume "i < length (missingAdDates deps account startDate endDate allDates) \<and>
       GetAdAccountsInsights deps ext
         \<lparr>StartDate = Some (missingAdDates deps account startDate endDate allDates ! i),
          EndDate = Some (missingAdDates deps account startDate endDate allDates ! i)\<rparr> = Inr m"
  then show "\<lparr>AccountID_adEntry = ID account, ExternalID_adEntry = ext,
            Date_adEntry = missingAdDates deps account startDate endDate allDates ! i,
            AdMetrics = m\<rparr>
           \<in> set (fst (getAdMetricsWithCache deps nowAtAd account ext startDate endDate allDates))"
    using fetchMissingAd_result [of i "missingAdDates deps account startDate endDate allDates" deps ext m account nowAtAd 0]
    by (simp add: getAdMetricsWithCache_def Let_def)
next
  assume a: "j < length (missingSalesDates deps account startDate endDate allDates) \<and>
       CNPJ account = Some cnpj \<and> cnpj \<noteq> [] \<and> SecretName account = Some sec \<and> sec \<noteq> [] \<and>
       fst (GetSalesMetrics deps fl cnpj sec
         \<lparr>StartDate = Some (missingSalesDates deps account startDate endDate allDates ! j),
          EndDate = Some (missingSalesDates deps account startDate endDate allDates ! j)\<rparr>) = Inr sm"
  then have ne: "missingSalesDates deps account startDate endDate allDates \<noteq> []" by auto
  from a show "\<lparr>AccountID_salesEntry = ID account,
            Date_salesEntry = missingSalesDates deps account startDate endDate allDates ! j,
            SalesMetrics_entry = Some sm\<rparr>
           \<in> set (fst (getSalesMetricsWithCache deps fl nowAtSales account startDate endDate allDates))"
    using fetchMissingSales_result [of j "missingSalesDates deps account startDate endDate allDates" deps fl cnpj sec sm account nowAtSales 0] ne
    by (simp add: getSalesMetricsWithCache_def Let_def)
qed

text \<open>
Claim C6. When the range query of the repository returns the cached entries and every requested day is the day of one of them, the list of missing dates is empty, the only call made is the range query itself (no fetch, no save), and the result is exactly the cached entries. This holds for the ad insights and for the sales insights.
\<close>

theorem cached_range_needs_no_fetch:
  "(AdGetByDateRange deps (ID account) startDate endDate = Inr cachedAd \<and>
    (\<forall>date \<in> set allDates. \<exists>insight \<in> set cachedAd.
        Format_DateOnly (Date_adEntry insight) = Format_DateOnly date)
    \<longrightarrow> missingAdDates deps account startDate endDate allDates = [] \<and>
        getAdMetricsWithCache deps nowAtAd account ext startDate endDate allDates
          = (cachedAd, [AdRangeQuery (ID account) startDate endDate]))
   \<and> (SalesGetByDateRange deps (ID account) startDate endDate = Inr cachedSales \<and>
    (\<forall>date \<in> set allDates. \<exists>insight \<in> set cachedSales.
        Format_DateOnly (Date_salesEntry insight) = Format_DateOnly date)
    \<longrightarrow> missingSalesDates deps account startDate endDate allDates = [] \<and>
        getSalesMetricsWithCache deps fl nowAtSales account startDate endDate allDates
          = (cachedSales, [SalesRangeQuery (ID account) startDate endDate]))"
proof (intro conjI impI)
  assume a: "AdGetByDateRange deps (ID account) startDate endDate = Inr cachedAd \<and>
    (\<forall>date \<in> set allDates. \<exists>insight \<in> set cachedAd.
        Format_DateOnly (Date_adEntry insight) = Format_DateOnly date)"
  then have c: "cachedAdInsights deps account startDate endDate = cachedAd"
    by (simp add: cachedAdInsights_def)
  from a show m: "missingAdDates deps account startDate endDate allDates = []"
    unfolding missingAdDates_def c Let_def filter_empty_conv by force
  show "getAdMetricsWithCache deps nowAtAd account ext startDate endDate allDates
          = (cachedAd, [AdRangeQuery (ID account) startDate endDate])"
    by (simp add: getAdMetricsWithCache_def m c)
next
  assume a: "SalesGetByDateRange deps (ID account) startDate endDate = Inr cachedSales \<and>
    (\<forall>date \<in> set allDates. \<exists>insight \<in> set cachedSales.
        Format_DateOnly (Date_salesEntry insight) = Format_DateOnly date)"
  then have c: "cachedSalesInsights deps account startDate endDate = cachedSales"
    by (simp add: cachedSalesInsights_def)
  from a show m: "missingSalesDates deps account startDate endDate allDates = []"
    unfolding missingSalesDates_def c Let_def filter_empty_conv by force
  show "getSalesMetricsWithCache deps fl nowAtSales account startDate endDate allDates
          = (cachedSales, [SalesRangeQuery (ID account) startDate endDate])"
    by (simp add: getSalesMetricsWithCache_def m c split: option.split)
qed

text \<open>
Claim C9. With a start date after the end date, \<open>GetAdAccountsByID\<close> and \<open>GetAdAccountReachImpressions\<close> return the validation error and make no call at all: no account lookup, no range query, no fetch, no save.
\<close>

theorem start_after_end_fails_fast:
  "StartDate f = Some startDate \<and> EndDate f = Some endDate \<and> After startDate endDate \<longrightarrow>
     GetAdAccountsByID deps fl nowAtAd nowAtSales useCache accountID (Some f)
       = (Failed startAfterEnd, []) \<and>
     GetAdAccountReachImpressions deps accountID (Some f) = (Failed startAfterEnd, [])"
  by (simp add: GetAdAccountsByID_def GetAdAccountReachImpressions_def)

lemma Format_day1: "Format_DateOnly day1 = ''2024-05-13''"
  by code_simp
lemma Format_day2: "Format_DateOnly day2 = ''2024-05-14''"
  by code_simp
lemma Format_noon2: "Format_DateOnly noon2 = ''2024-05-14''"
  by code_simp

lemma example_account_fields:
  "ID example_account = ''ACC001''" "CNPJ example_account = Some ''12345678901''"
  "SecretName example_account = Some ''secret1''"
  by (simp_all add: example_account_def)

lemma empty_store_fields:
  "AdGetByDateRange empty_store_deps a s e = Inr []"
  "SalesGetByDateRange empty_store_deps a s e = Inr []"
  "GetAdAccountsInsights empty_store_deps x f = Inr (Some example_metrics)"
  "SSOticaSalesByAccount empty_store_deps c n f = Inr [example_order]"
  "ParseDateOnly empty_store_deps d = Inr day1"
  by (simp_all add: empty_store_deps_def)

lemma day1_neq_day2: "day1 \<noteq> day2"
  by (simp add: day1_def day2_def midnightOf_def)

lemma example_missing_ad:
  "missingAdDates empty_store_deps example_account day1 day2 [day1, day2] = [day1, day2]"
  by (simp add: missingAdDates_def cachedAdInsights_def empty_store_fields)

lemma example_missing_sales:
  "missingSalesDates empty_store_deps example_account day1 day2 [day1, day2] = [day1, day2]"
  by (simp add: missingSalesDates_def cachedSalesInsights_def empty_store_fields)

lemma example_ad_fill:
  "getAdMetricsWithCache empty_store_deps (\<lambda>k. noon2) example_account ''act1'' day1 day2 [day1, day2]
   = ([adEntryOf day1, adEntryOf day2],
      [AdRangeQuery ''ACC001'' day1 day2,
       AdFetch ''act1'' \<lparr>StartDate = Some day1, EndDate = Some day1\<rparr>,
       AdSave (adEntryOf day1),
       AdFetch ''act1'' \<lparr>StartDate = Some day2, EndDate = Some day2\<rparr>])"
  by (simp add: getAdMetricsWithCache_def example_missing_ad cachedAdInsights_def Let_def
      Format_day1 Format_day2 Format_noon2 adEntryOf_def empty_store_fields example_account_fields)

lemma example_sales_fetch:
  "GetSalesMetrics empty_store_deps whole_ops ''12345678901'' ''secret1'' f
   = (Inr example_sales, [SalesFetch ''12345678901'' ''secret1'' f])"
  by (simp add: GetSalesMetrics_def getSalesMetricsByOrigin_def empty_store_fields example_order_def
      SocialNetworkOrigin_def OthersOrigin_def SocialNetworkOrigins_def example_sales_def
      RoundWithTwoDecimalPlace_def whole_ops_def Let_def)

lemma example_sales_dom: "dom example_sales \<noteq> {}"
  by (simp add: example_sales_def)

lemma example_sales_nonempty: "example_sales \<noteq> Map.empty"
  using example_sales_dom by auto

lemma example_sales_fill:
  "getSalesMetricsWithCache empty_store_deps whole_ops (\<lambda>k. noon2) example_account day1 day2 [day1, day2]
   = ([salesEntryOf day1, salesEntryOf day2],
      [SalesRangeQuery ''ACC001'' day1 day2,
       SalesFetch ''12345678901'' ''secret1'' \<lparr>StartDate = Some day1, EndDate = Some day1\<rparr>,
       SalesSave (salesEntryOf day1),
       SalesFetch ''12345678901'' ''secret1'' \<lparr>StartDate = Some day2, EndDate = Some day2\<rparr>])"
  by (simp add: getSalesMetricsWithCache_def example_missing_sales cachedSalesInsights_def Let_def
      example_account_fields example_sales_fetch example_sales_nonempty empty_store_fields
      Format_day1 Format_day2 Format_noon2 salesEntryOf_def)

text \<open>
Witness for C1: nothing is cached, the range is 2024-05-13 to 2024-05-14 and the clock stands at noon of 2024-05-14. The entry of the 13th is saved, the entry of the 14th is returned and not saved.
\<close>

theorem cache_fill_never_saves_today_witness:
  "AdSave (adEntryOf day1)
     \<in> set (snd (getAdMetricsWithCache empty_store_deps (\<lambda>k. noon2) example_account ''act1'' day1 day2
                  [day1, day2]))
   \<and> Format_DateOnly (Date_adEntry (adEntryOf day1)) \<noteq> Format_DateOnly noon2
   \<and> SalesSave (salesEntryOf day1)
     \<in> set (snd (getSalesMetricsWithCache empty_store_deps whole_ops (\<lambda>k. noon2) example_account day1
                  day2 [day1, day2]))
   \<and> Format_DateOnly (Date_salesEntry (salesEntryOf day1)) \<noteq> Format_DateOnly noon2
   \<and> Format_DateOnly day2 = Format_DateOnly noon2
   \<and> adEntryOf day2
     \<in> set (fst (getAdMetricsWithCache empty_store_deps (\<lambda>k. noon2) example_account ''act1'' day1 day2
                  [day1, day2]))
   \<and> salesEntryOf day2
     \<in> set (fst (getSalesMetricsWithCache empty_store_deps whole_ops (\<lambda>k. noon2) example_account day1
                  day2 [day1, day2]))
   \<and> AdSave (adEntryOf day2)
     \<notin> set (snd (getAdMetricsWithCache empty_store_deps (\<lambda>k. noon2) example_account ''act1'' day1 day2
                  [day1, day2]))
   \<and> SalesSave (salesEntryOf day2)
     \<notin> set (snd (getSalesMetricsWithCache empty_store_deps whole_ops (\<lambda>k. noon2) example_account day1
                  day2 [day1, day2]))"
proof -
  have ad: "AdSave (adEntryOf day1)
     \<in> set (snd (getAdMetricsWithCache empty_store_deps (\<lambda>k. noon2) example_account ''act1'' day1 day2
                  [day1, day2]))"
    by (simp add: example_ad_fill)
  have sal: "SalesSave (salesEntryOf day1)
     \<in> set (snd (getSalesMetricsWithCache empty_store_deps whole_ops (\<lambda>k. noon2) example_account day1
                  day2 [day1, day2]))"
    by (simp add: example_sales_fill)
  have fetched_ad: "1 < length (missingAdDates empty_store_deps example_account day1 day2 [day1, day2]) \<and>
      GetAdAccountsInsights empty_store_deps ''act1''
        \<lparr>StartDate = Some (missingAdDates empty_store_deps example_account day1 day2 [day1, day2] ! 1),
         EndDate = Some (missingAdDates empty_store_deps example_account day1 day2 [day1, day2] ! 1)\<rparr>
      = Inr (Some example_metrics)"
    by (simp add: example_missing_ad empty_store_fields)
  have fetched_sales: "1 < length (missingSalesDates empty_store_deps example_account day1 day2 [day1, day2]) \<and>
      CNPJ example_account = Some ''12345678901'' \<and> ''12345678901'' \<noteq> [] \<and>
      SecretName example_account = Some ''secret1'' \<and> ''secret1'' \<noteq> [] \<and>
      fst (GetSalesMetrics empty_store_deps whole_ops ''12345678901'' ''secret1''
        \<lparr>StartDate = Some (missingSalesDates empty_store_deps example_account day1 day2 [day1, day2] ! 1),
         EndDate = Some (missingSalesDates empty_store_deps example_account day1 day2 [day1, day2] ! 1)\<rparr>)
      = Inr example_sales"
    by (simp add: example_missing_sales example_sales_fetch example_account_fields)
  from cache_fill_never_saves_today
    [where deps = empty_store_deps and fl = whole_ops and account = example_account
       and nowAtAd = "\<lambda>k. noon2" and nowAtSales = "\<lambda>k. noon2" and ext = "''act1''"
       and startDate = day1 and endDate = day2 and allDates = "[day1, day2]"
       and adEntry = "adEntryOf day1" and salesEntry = "salesEntryOf day1"
       and i = 1 and j = 1 and m = "Some example_metrics" and sm = example_sales
       and cnpj = "''12345678901''" and sec = "''secret1''"]
    ad sal fetched_ad fetched_sales
  have "Format_DateOnly (Date_adEntry (adEntryOf day1)) \<noteq> Format_DateOnly noon2"
    and "Format_DateOnly (Date_salesEntry (salesEntryOf day1)) \<noteq> Format_DateOnly noon2"
    and "adEntryOf day2
     \<in> set (fst (getAdMetricsWithCache empty_store_deps (\<lambda>k. noon2) example_account ''act1'' day1 day2
                  [day1, day2]))"
    and "salesEntryOf day2
     \<in> set (fst (getSalesMetricsWithCache empty_store_deps whole_ops (\<lambda>k. noon2) example_account day1
                  day2 [day1, day2]))"
    by (auto simp: example_missing_ad example_missing_sales adEntryOf_def salesEntryOf_def
        example_account_fields)
  moreover have "Format_DateOnly day2 = Format_DateOnly noon2"
    by (simp add: Format_day2 Format_noon2)
  moreover have "AdSave (adEntryOf day2)
     \<notin> set (snd (getAdMetricsWithCache empty_store_deps (\<lambda>k. noon2) example_account ''act1'' day1 day2
                  [day1, day2]))"
    using day1_neq_day2 by (simp add: example_ad_fill adEntryOf_def)
  moreover have "SalesSave (salesEntryOf day2)
     \<notin> set (snd (getSalesMetricsWithCache empty_store_deps whole_ops (\<lambda>k. noon2) example_account day1
                  day2 [day1, day2]))"
    using day1_neq_day2 by (simp add: example_sales_fill salesEntryOf_def)
  ultimately show ?thesis using ad sal by blast
qed

lemma full_store_fields:
  "AdGetByDateRange full_store_deps a s e = Inr [adEntryOf day1, adEntryOf day2]"
  "SalesGetByDateRange full_store_deps a s e = Inr [salesEntryOf day1, salesEntryOf day2]"
  by (simp_all add: full_store_deps_def)

text \<open>
Witness for C6: both days of the range are cached.
\<close>

theorem cached_range_needs_no_fetch_witness:
  "AdGetByDateRange full_store_deps (ID example_account) day1 day2 = Inr [adEntryOf day1, adEntryOf day2]
   \<and> SalesGetByDateRange full_store_deps (ID example_account) day1 day2
       = Inr [salesEntryOf day1, salesEntryOf day2]
   \<and> getAdMetricsWithCache full_store_deps (\<lambda>k. noon2) example_account ''act1'' day1 day2 [day1, day2]
       = ([adEntryOf day1, adEntryOf day2], [AdRangeQuery (ID example_account) day1 day2])
   \<and> getSalesMetricsWithCache full_store_deps whole_ops (\<lambda>k. noon2) example_account day1 day2
         [day1, day2]
       = ([salesEntryOf day1, salesEntryOf day2], [SalesRangeQuery (ID example_account) day1 day2])"
proof -
  have ad: "AdGetByDateRange full_store_deps (ID example_account) day1 day2
      = Inr [adEntryOf day1, adEntryOf day2] \<and>
    (\<forall>date \<in> set [day1, day2]. \<exists>insight \<in> set [adEntryOf day1, adEntryOf day2].
        Format_DateOnly (Date_adEntry insight) = Format_DateOnly date)"
    by (simp add: full_store_fields adEntryOf_def)
  have sal: "SalesGetByDateRange full_store_deps (ID example_account) day1 day2
      = Inr [salesEntryOf day1, salesEntryOf day2] \<and>
    (\<forall>date \<in> set [day1, day2]. \<exists>insight \<in> set [salesEntryOf day1, salesEntryOf day2].
        Format_DateOnly (Date_salesEntry insight) = Format_DateOnly date)"
    by (simp add: full_store_fields salesEntryOf_def)
  from cached_range_needs_no_fetch
    [where deps = full_store_deps and account = example_account and startDate = day1
       and endDate = day2 and allDates = "[day1, day2]"
       and cachedAd = "[adEntryOf day1, adEntryOf day2]"
       and cachedSales = "[salesEntryOf day1, salesEntryOf day2]"
       and nowAtAd = "\<lambda>k. noon2" and nowAtSales = "\<lambda>k. noon2" and ext = "''act1''"
       and fl = whole_ops]
    ad sal
  show ?thesis by blast
qed

text \<open>
Witness for C9: the range from 2024-05-14 back to 2024-05-13.
\<close>

theorem start_after_end_fails_fast_witness:
  "After day2 day1
   \<and> GetAdAccountsByID empty_store_deps whole_ops (\<lambda>k. noon2) (\<lambda>k. noon2) True ''act1''
       (Some \<lparr>StartDate = Some day2, EndDate = Some day1\<rparr>) = (Failed startAfterEnd, [])
   \<and> GetAdAccountReachImpressions empty_store_deps ''act1''
       (Some \<lparr>StartDate = Some day2, EndDate = Some day1\<rparr>) = (Failed startAfterEnd, [])"
proof -
  have a: "After day2 day1"
    by (simp add: After_def day1_def day2_def midnightOf_def)
  from start_after_end_fails_fast
    [where f = "\<lparr>StartDate = Some day2, EndDate = Some day1\<rparr>" and startDate = day2
       and endDate = day1 and deps = empty_store_deps and fl = whole_ops
       and nowAtAd = "\<lambda>k. noon2" and nowAtSales = "\<lambda>k. noon2" and useCache = True
       and accountID = "''act1''"]
    a
  show ?thesis by simp
qed

lemma example_token_facts:
  "AccessToken (cfg fresh_state) = ''token-1''" "AccessToken (cfg expiring_state) = ''token-1''"
  "clock example_env n = noon2" "clockReads fresh_state = 0" "clockReads expiring_state = 0"
  "calls fresh_state = []" "calls expiring_state = []"
  "TokenExpiresAt (cfg fresh_state) = Add noon2 (48 * Hour)"
  "TokenExpiresAt (cfg expiring_state) = Add noon2 Hour"
  by (simp_all add: fresh_state_def expiring_state_def example_cfg_def example_env_def)

lemma example_validity:
  "Until noon2 (Add noon2 (48 * Hour)) = 48 * Hour" "Until noon2 (Add noon2 Hour) = Hour"
  by (simp_all add: Until_def Sub_def Add_def Hour_def Let_def maxDuration_def minDuration_def)

text \<open>
Witness for C7: a token with 48 hours left and a token with one hour left.
\<close>

theorem EnsureValidToken_calls_witness:
  "AccessToken (cfg fresh_state) \<noteq> []
   \<and> 24 * Hour \<le> Until (clock example_env (clockReads fresh_state)) (TokenExpiresAt (cfg fresh_state))
   \<and> EnsureValidToken example_env fresh_state = (None, fresh_state\<lparr>clockReads := 1\<rparr>)
   \<and> calls (snd (EnsureValidToken example_env fresh_state)) = []
   \<and> AccessToken (cfg expiring_state) \<noteq> []
   \<and> Until (clock example_env (clockReads expiring_state)) (TokenExpiresAt (cfg expiring_state))
        < 24 * Hour
   \<and> calls (snd (EnsureValidToken example_env expiring_state)) = [TokenExchange ''token-1'']"
proof -
  have pos: "0 < Hour" by (simp add: Hour_def)
  have fresh: "24 * Hour \<le> Until (clock example_env (clockReads fresh_state))
      (TokenExpiresAt (cfg fresh_state))"
    using pos by (simp add: example_token_facts example_validity)
  have expiring: "Until (clock example_env (clockReads expiring_state))
      (TokenExpiresAt (cfg expiring_state)) < 24 * Hour"
    using pos by (simp add: example_token_facts example_validity)
  from EnsureValidToken_calls [of fresh_state example_env]
    EnsureValidToken_calls [of expiring_state example_env] fresh expiring
  show ?thesis by (simp add: example_token_facts)
qed

text \<open>
Witness for the amended C2: three calls, three exchanges.
\<close>

theorem refreshTimes_exchanges_witness:
  "AccessToken (cfg expiring_state) \<noteq> []
   \<and> length (exchanges (calls (refreshTimes example_env 3 expiring_state))) = 3"
  using refreshTimes_exchanges [of expiring_state example_env 3]
  by (simp add: example_token_facts exchanges_def)

lemma example_refresh_token:
  "AccessToken (cfg st) \<noteq> [] \<Longrightarrow>
   AccessToken (cfg (snd (RefreshToken example_env st))) = ''token-2''"
  by (simp add: RefreshToken_def refreshTokenInternal_def GetLongLivedToken_def Now_def Let_def
      example_env_def)

text \<open>
Counterexample to C2 as stated: two calls of \<open>RefreshToken\<close> make two token exchanges, the second one for the token the first one obtained.
\<close>

theorem concurrent_refreshes_counterexample:
  "calls (refreshTimes example_env 2 expiring_state)
     = [TokenExchange ''token-1'', TokenExchange ''token-2'']
   \<and> length (exchanges (calls (refreshTimes example_env 2 expiring_state))) \<noteq> 1"
proof -
  let ?s1 = "snd (RefreshToken example_env expiring_state)"
  have c1: "calls ?s1 = [TokenExchange ''token-1'']"
    using refresh_calls [of expiring_state example_env]
    by (simp add: RefreshToken_def example_token_facts)
  have t1: "AccessToken (cfg ?s1) = ''token-2''"
    by (rule example_refresh_token) (simp add: example_token_facts)
  have c2: "calls (snd (RefreshToken example_env ?s1))
      = [TokenExchange ''token-1'', TokenExchange ''token-2'']"
    using refresh_calls [of ?s1 example_env] c1 t1 by (simp add: RefreshToken_def)
  have "refreshTimes example_env 2 expiring_state = snd (RefreshToken example_env ?s1)"
    by (simp add: numeral_2_eq_2)
  with c2 show ?thesis by (simp add: exchanges_def)
qed

lemma positionRow_keeps:
  "AccountID_ranking (positionRow b i r) = AccountID_ranking r"
  "SocialNetworkRevenue (positionRow b i r) = SocialNetworkRevenue r"
  "Position (positionRow b i r) = int i + 1"
  by (simp_all add: positionRow_def Let_def split: option.split)

lemma positionRow_prior:
  "b (AccountID_ranking r) = Some p \<Longrightarrow>
   PositionChange (positionRow b i r) = Position p - Position (positionRow b i r) \<and>
   PreviousPosition (positionRow b i r) = Position p"
  by (simp add: positionRow_def Let_def)

lemma positionRow_new:
  "b (AccountID_ranking r) = None \<Longrightarrow>
   PositionChange (positionRow b i r) = PositionChange r \<and>
   PreviousPosition (positionRow b i r) = PreviousPosition r"
  by (simp add: positionRow_def Let_def)

lemma assignPositions_map:
  "assignPositions b i xs = map (\<lambda>(k, r). positionRow b k r) (zip [i..<i + length xs] xs)"
proof (induction xs arbitrary: i)
  case Nil
  then show ?case by simp
next
  case (Cons x xs)
  have "[i..<i + length (x # xs)] = i # [Suc i..<Suc i + length xs]"
    by (subst upt_rec) simp
  then show ?case using Cons.IH [of "Suc i"] by simp
qed

lemma assignPositions_length: "length (assignPositions b i xs) = length xs"
  by (simp add: assignPositions_map)

lemma assignPositions_nth:
  "k < length xs \<Longrightarrow> assignPositions b i xs ! k = positionRow b (i + k) (xs ! k)"
  by (simp add: assignPositions_map)

lemma assignPositions_revenue:
  "map (\<lambda>r. (AccountID_ranking r, SocialNetworkRevenue r)) (assignPositions b i xs)
   = map (\<lambda>r. (AccountID_ranking r, SocialNetworkRevenue r)) xs"
  by (induction xs arbitrary: i) (simp_all add: positionRow_keeps)

lemma assignPositions_positions:
  "map Position (assignPositions b i xs) = map (\<lambda>k. int k + 1) [i..<i + length xs]"
proof (induction xs arbitrary: i)
  case Nil
  then show ?case by simp
next
  case (Cons x xs)
  have "[i..<i + length (x # xs)] = i # [Suc i..<Suc i + length xs]"
    by (subst upt_rec) simp
  then show ?case using Cons.IH [of "Suc i"] by (simp add: positionRow_keeps)
qed

lemma sorted_wrt_revenue:
  "sorted_wrt (\<lambda>a b. Q (SocialNetworkRevenue a) (SocialNetworkRevenue b)) xs
   = sorted_wrt Q (map SocialNetworkRevenue xs)"
  by (simp add: sorted_wrt_map)

lemma assignPositions_sorted:
  "sorted_wrt (\<lambda>a b. Q (SocialNetworkRevenue a) (SocialNetworkRevenue b)) (assignPositions b i xs)
   = sorted_wrt (\<lambda>a b. Q (SocialNetworkRevenue a) (SocialNetworkRevenue b)) xs"
proof -
  have "map SocialNetworkRevenue (assignPositions b i xs) = map SocialNetworkRevenue xs"
    by (induction xs arbitrary: i) (simp_all add: positionRow_keeps)
  then show ?thesis by (simp add: sorted_wrt_revenue)
qed

text \<open>
What holds of the order that \<open>updatePositions\<close> writes, for a slice of any length: whenever \<open>sort.Slice\<close> delivers what it promises (the rows, sorted by the \<open>less\<close> closure), the positions are 1, 2, ..., N in the order of the output, the output is in descending order of \<open>SocialNetworkRevenue\<close>, and it holds the accounts and revenues of the input.
\<close>

lemma positions_contiguous_and_sorted:
  assumes "sortSlice_post (rankingLess fl) rows (sortSlice (rankingLess fl) rows)"
  shows "map Position (updatePositions sortSlice fl rows before) = map int [1..<Suc (length rows)]
    \<and> sorted_wrt (\<lambda>a b. \<not> fgt fl (SocialNetworkRevenue b) (SocialNetworkRevenue a))
         (updatePositions sortSlice fl rows before)
    \<and> mset (map (\<lambda>r. (AccountID_ranking r, SocialNetworkRevenue r))
              (updatePositions sortSlice fl rows before))
       = mset (map (\<lambda>r. (AccountID_ranking r, SocialNetworkRevenue r)) rows)"
proof -
  let ?sorted = "sortSlice (rankingLess fl) rows"
  from assms have perm: "mset ?sorted = mset rows"
    and srt: "sorted_wrt (\<lambda>a b. \<not> rankingLess fl b a) ?sorted"
    by (simp_all add: sortSlice_post_def)
  from perm have len: "length ?sorted = length rows"
    by (metis size_mset)
  have "[1..<Suc (length rows)] = map Suc [0..<length rows]"
    by (simp add: map_Suc_upt del: upt_Suc)
  then have "map (\<lambda>k. int k + 1) [0..<length rows] = map int [1..<Suc (length rows)]"
    by (simp add: o_def add.commute del: upt_Suc)
  then have p: "map Position (updatePositions sortSlice fl rows before) = map int [1..<Suc (length rows)]"
    by (simp add: updatePositions_def assignPositions_positions len)
  have s: "sorted_wrt (\<lambda>a b. \<not> fgt fl (SocialNetworkRevenue b) (SocialNetworkRevenue a))
         (updatePositions sortSlice fl rows before)"
    using srt
    unfolding updatePositions_def rankingLess_def
    by (simp add: assignPositions_sorted [where Q = "\<lambda>x y. \<not> fgt fl y x"])
  have "mset (map (\<lambda>r. (AccountID_ranking r, SocialNetworkRevenue r))
              (updatePositions sortSlice fl rows before))
       = image_mset (\<lambda>r. (AccountID_ranking r, SocialNetworkRevenue r)) (mset ?sorted)"
    by (simp add: updatePositions_def assignPositions_revenue)
  with perm p s show ?thesis by simp
qed

lemma newRankings_rows:
  "newRankings deps fl first yesterday accounts = Inr rows \<Longrightarrow> r \<in> set rows \<Longrightarrow>
   PositionChange r = 0 \<and> PreviousPosition r = 0 \<and> AccountID_ranking r \<in> ID ` set accounts"
proof (induction accounts arbitrary: rows)
  case Nil
  then show ?case by simp
next
  case (Cons a as)
  from Cons.prems(1) obtain rest where rest: "newRankings deps fl first yesterday as = Inr rest"
    by (auto split: option.splits sum.splits)
  from Cons.prems rest consider
      (old) "r \<in> set rest"
    | (new) "PositionChange r = 0" "PreviousPosition r = 0" "AccountID_ranking r = ID a"
    by (auto split: option.splits sum.splits)
  then show ?case
  proof cases
    case old
    from Cons.IH [OF rest old] show ?thesis by auto
  next
    case new
    then show ?thesis by simp
  qed
qed

lemma rankingsBefore_foldl:
  assumes "\<forall>a \<in> set accounts. \<forall>p. GetByAccountID deps (ID a) month = Inr (Some p)
             \<longrightarrow> AccountID_ranking p = ID a"
  shows "foldl (\<lambda>m account.
              case GetByAccountID deps (ID account) month of
                Inr (Some topRankingItem) \<Rightarrow>
                  if AccountID_ranking topRankingItem = [] then m
                  else m(AccountID_ranking topRankingItem \<mapsto> topRankingItem)
              | _ \<Rightarrow> m) m0 accounts k
         = (if k \<in> ID ` set accounts \<and> k \<noteq> []
            then (case GetByAccountID deps k month of Inr (Some p) \<Rightarrow> Some p | _ \<Rightarrow> m0 k)
            else m0 k)"
  using assms
proof (induction accounts arbitrary: m0)
  case Nil
  then show ?case by simp
next
  case (Cons a as)
  then show ?case
    by (auto split: sum.splits option.splits)
qed

lemma rankingsBefore_lookup:
  assumes "\<forall>a \<in> set accounts. \<forall>p. GetByAccountID deps (ID a) month = Inr (Some p)
             \<longrightarrow> AccountID_ranking p = ID a"
    and "k \<in> ID ` set accounts" and "k \<noteq> []"
  shows "rankingsBefore deps month accounts k
         = (case GetByAccountID deps k month of Inr (Some p) \<Rightarrow> Some p | _ \<Rightarrow> None)"
  unfolding rankingsBefore_def
  using rankingsBefore_foldl [OF assms(1), of Map.empty k] assms(2,3)
  by (simp split: sum.split option.split)

text \<open>
Claim C4. In a ranking run, a row whose account has a stored row for the month gets \<open>PositionChange\<close> = stored position - new position and \<open>PreviousPosition\<close> = stored position; a row whose account has none (or whose lookup failed) keeps 0 and 0. The sort and the arrival order may permute the rows in any way; the store returns, for an account id, a row of that account; account ids are not empty.
\<close>

theorem position_change_from_prior_row:
  assumes run: "processTopRankingAccountsWithDate sortSlice arrival fl deps accounts processingDate
                  = Inr (ranked, err)"
    and sort_permutes: "\<forall>xs. mset (sortSlice (rankingLess fl) xs) = mset xs"
    and arrival_permutes: "\<forall>xs. mset (arrival xs) = mset xs"
    and store: "\<forall>a \<in> set accounts. \<forall>p.
                  GetByAccountID deps (ID a) (Format_MonthYear (AddDays processingDate (- 1)))
                    = Inr (Some p) \<longrightarrow> AccountID_ranking p = ID a"
    and ids: "\<forall>a \<in> set accounts. ID a \<noteq> []"
  shows "\<forall>r \<in> set ranked.
           (case GetByAccountID deps (AccountID_ranking r)
                   (Format_MonthYear (AddDays processingDate (- 1))) of
              Inr (Some prior) \<Rightarrow>
                PositionChange r = Position prior - Position r \<and>
                PreviousPosition r = Position prior
            | _ \<Rightarrow> PositionChange r = 0 \<and> PreviousPosition r = 0)"
proof
  fix r assume r: "r \<in> set ranked"
  let ?yesterday = "AddDays processingDate (- 1)"
  let ?month = "Format_MonthYear ?yesterday"
  let ?before = "rankingsBefore deps ?month accounts"
  from run obtain rows where rows: "newRankings deps fl (getFirstDayOfMonth ?yesterday) ?yesterday accounts = Inr rows"
    and ranked: "ranked = updatePositions sortSlice fl (arrival rows) ?before"
    by (auto simp: processTopRankingAccountsWithDate_def Let_def split: sum.splits)
  let ?sorted = "sortSlice (rankingLess fl) (arrival rows)"
  have set_sorted: "set ?sorted = set rows"
    using sort_permutes arrival_permutes by (metis mset_eq_setD)
  from r ranked obtain k where k: "k < length ?sorted" "r = positionRow ?before k (?sorted ! k)"
    unfolding updatePositions_def
    by (metis add_0 assignPositions_length assignPositions_nth in_set_conv_nth)
  let ?x = "?sorted ! k"
  from k(1) set_sorted have "?x \<in> set rows" by (metis nth_mem)
  from newRankings_rows [OF rows this]
  have zero: "PositionChange ?x = 0" "PreviousPosition ?x = 0"
    and acc: "AccountID_ranking ?x \<in> ID ` set accounts" by simp_all
  from acc ids have ne: "AccountID_ranking ?x \<noteq> []" by auto
  have id: "AccountID_ranking r = AccountID_ranking ?x"
    by (simp add: k(2) positionRow_keeps)
  have before: "?before (AccountID_ranking ?x)
      = (case GetByAccountID deps (AccountID_ranking ?x) ?month of Inr (Some p) \<Rightarrow> Some p | _ \<Rightarrow> None)"
    by (rule rankingsBefore_lookup [OF store acc ne])
  show "case GetByAccountID deps (AccountID_ranking r) ?month of
              Inr (Some prior) \<Rightarrow>
                PositionChange r = Position prior - Position r \<and>
                PreviousPosition r = Position prior
            | _ \<Rightarrow> PositionChange r = 0 \<and> PreviousPosition r = 0"
  proof (cases "GetByAccountID deps (AccountID_ranking ?x) ?month")
    case (Inl e)
    with before have "?before (AccountID_ranking ?x) = None" by simp
    from positionRow_new [of ?before ?x k, OF this] zero
    have "PositionChange r = 0 \<and> PreviousPosition r = 0" by (simp add: k(2))
    with Inl show ?thesis by (simp add: id)
  next
    case (Inr found)
    show ?thesis
    proof (cases found)
      case None
      with before Inr have "?before (AccountID_ranking ?x) = None" by simp
      from positionRow_new [of ?before ?x k, OF this] zero
      have "PositionChange r = 0 \<and> PreviousPosition r = 0" by (simp add: k(2))
      with Inr None show ?thesis by (simp add: id)
    next
      case (Some p)
      with before Inr have "?before (AccountID_ranking ?x) = Some p" by simp
      from positionRow_prior [of ?before ?x p k, OF this]
      have "PositionChange r = Position p - Position r \<and> PreviousPosition r = Position p"
        by (simp add: k(2))
      with Inr Some show ?thesis by (simp add: id)
    qed
  qed
qed

lemma mset_insertStable: "mset (insertStable lt x xs) = add_mset x (mset xs)"
  by (induction xs) simp_all

lemma mset_insertionSort: "mset (insertionSort lt xs) = mset xs"
  by (induction xs) (simp_all add: mset_insertStable)

lemma example_month: "Format_MonthYear (AddDays noon2 (- 1)) = ''05-2024''"
  by code_simp

lemma example_accounts:
  "ID account_A = ''ACC001''" "ID account_B = ''ACC002''" "ID account_C = ''ACC003''"
  "CNPJ account_A = Some ''12345678901''" "CNPJ account_B = Some ''12345678902''"
  "CNPJ account_C = Some ''12345678903''"
  "SecretName account_A = Some ''secret1''" "SecretName account_B = Some ''secret2''"
  "SecretName account_C = Some ''secret3''"
  "Name_account account_A = ''Loja A''" "Name_account account_B = ''Loja B''"
  "Name_account account_C = ''Loja C''"
  by (simp_all add: account_A_def account_B_def account_C_def example_account_def)

lemma social_revenue:
  "GetSumNetAmountSocialNetwork whole_ops [socialOrder amount] = amount"
  by (simp add: GetSumNetAmountSocialNetwork_def socialOrder_def SocialNetworkOrigins_def whole_ops_def)

lemma whole_gt: "fgt whole_ops a b = (b < a)"
  by (simp add: whole_ops_def)

lemma overtaking_run:
  "processTopRankingAccountsWithDate insertionSort id whole_ops overtaking_deps
     [account_A, account_B] noon2
   = Inr ([rankingRow ''ACC002'' ''Loja B'' 3500 1 1 2,
           rankingRow ''ACC001'' ''Loja A'' 3000 2 (- 1) 1], None)"
  by (simp add: processTopRankingAccountsWithDate_def Let_def example_month example_accounts
      overtaking_deps_def social_revenue updatePositions_def rankingLess_def whole_gt
      rankingsBefore_def positionRow_def rankingRow_def)

lemma first_run:
  "processTopRankingAccountsWithDate insertionSort id whole_ops first_run_deps
     [account_A, account_B, account_C] noon2
   = Inr ([rankingRow ''ACC001'' ''Loja A'' 3000 1 0 0,
           rankingRow ''ACC002'' ''Loja B'' 2500 2 0 0,
           rankingRow ''ACC003'' ''Loja C'' 1500 3 0 0], None)"
  by (simp add: processTopRankingAccountsWithDate_def Let_def example_month example_accounts
      first_run_deps_def social_revenue updatePositions_def rankingLess_def whole_gt
      rankingsBefore_def positionRow_def rankingRow_def)

text \<open>
Witness for C4, the scenario of the claim: Loja A was stored at position 1 and Loja B at position 2, and B has now sold more than A. B gets position 1, change +1, previous 2; A gets position 2, change -1, previous 1.
\<close>

theorem position_change_from_prior_row_witness:
  "processTopRankingAccountsWithDate insertionSort id whole_ops overtaking_deps
     [account_A, account_B] noon2
   = Inr ([rankingRow ''ACC002'' ''Loja B'' 3500 1 1 2,
           rankingRow ''ACC001'' ''Loja A'' 3000 2 (- 1) 1], None)
   \<and> GetByAccountID overtaking_deps ''ACC002'' (Format_MonthYear (AddDays noon2 (- 1)))
       = Inr (Some (rankingRow ''ACC002'' ''Loja B'' 2500 2 0 0))
   \<and> PositionChange (rankingRow ''ACC002'' ''Loja B'' 3500 1 1 2)
       = Position (rankingRow ''ACC002'' ''Loja B'' 2500 2 0 0)
         - Position (rankingRow ''ACC002'' ''Loja B'' 3500 1 1 2)
   \<and> PreviousPosition (rankingRow ''ACC002'' ''Loja B'' 3500 1 1 2)
       = Position (rankingRow ''ACC002'' ''Loja B'' 2500 2 0 0)
   \<and> GetByAccountID overtaking_deps ''ACC001'' (Format_MonthYear (AddDays noon2 (- 1)))
       = Inr (Some (rankingRow ''ACC001'' ''Loja A'' 3000 1 0 0))
   \<and> PositionChange (rankingRow ''ACC001'' ''Loja A'' 3000 2 (- 1) 1)
       = Position (rankingRow ''ACC001'' ''Loja A'' 3000 1 0 0)
         - Position (rankingRow ''ACC001'' ''Loja A'' 3000 2 (- 1) 1)
   \<and> PreviousPosition (rankingRow ''ACC001'' ''Loja A'' 3000 2 (- 1) 1)
       = Position (rankingRow ''ACC001'' ''Loja A'' 3000 1 0 0)"
proof -
  have store: "\<forall>a \<in> set [account_A, account_B]. \<forall>p.
      GetByAccountID overtaking_deps (ID a) (Format_MonthYear (AddDays noon2 (- 1))) = Inr (Some p)
        \<longrightarrow> AccountID_ranking p = ID a"
    by (auto simp: example_accounts overtaking_deps_def rankingRow_def)
  have ids: "\<forall>a \<in> set [account_A, account_B]. ID a \<noteq> []"
    by (simp add: example_accounts)
  have lookups:
    "GetByAccountID overtaking_deps ''ACC002'' (Format_MonthYear (AddDays noon2 (- 1)))
       = Inr (Some (rankingRow ''ACC002'' ''Loja B'' 2500 2 0 0))"
    "GetByAccountID overtaking_deps ''ACC001'' (Format_MonthYear (AddDays noon2 (- 1)))
       = Inr (Some (rankingRow ''ACC001'' ''Loja A'' 3000 1 0 0))"
    by (simp_all add: overtaking_deps_def)
  have ids2: "AccountID_ranking (rankingRow ''ACC002'' ''Loja B'' 3500 1 1 2) = ''ACC002''"
    "AccountID_ranking (rankingRow ''ACC001'' ''Loja A'' 3000 2 (- 1) 1) = ''ACC001''"
    by (simp_all add: rankingRow_def)
  from position_change_from_prior_row [OF overtaking_run _ _ store ids]
  have "\<forall>r \<in> set [rankingRow ''ACC002'' ''Loja B'' 3500 1 1 2,
                    rankingRow ''ACC001'' ''Loja A'' 3000 2 (- 1) 1].
           (case GetByAccountID overtaking_deps (AccountID_ranking r)
                   (Format_MonthYear (AddDays noon2 (- 1))) of
              Inr (Some prior) \<Rightarrow>
                PositionChange r = Position prior - Position r \<and>
                PreviousPosition r = Position prior
            | _ \<Rightarrow> PositionChange r = 0 \<and> PreviousPosition r = 0)"
    by (simp add: mset_insertionSort)
  then show ?thesis
    using overtaking_run lookups by (simp add: ids2)
qed

lemma insertionSort_three:
  "insertionSort (rankingLess whole_ops)
     [rankingRow ''ACC001'' ''Loja A'' 3000 0 0 0, rankingRow ''ACC002'' ''Loja B'' 2500 0 0 0,
      rankingRow ''ACC003'' ''Loja C'' 1500 0 0 0]
   = [rankingRow ''ACC001'' ''Loja A'' 3000 0 0 0, rankingRow ''ACC002'' ''Loja B'' 2500 0 0 0,
      rankingRow ''ACC003'' ''Loja C'' 1500 0 0 0]"
  by (simp add: rankingLess_def whole_gt rankingRow_def)

text \<open>
Revenues 3000, 2500 and 1500 with no earlier ranking get the positions 1, 2, 3 in that order, with position change 0 and previous position 0.
\<close>

lemma positions_contiguous_and_sorted_example:
  "sortSlice_post (rankingLess whole_ops)
     [rankingRow ''ACC001'' ''Loja A'' 3000 0 0 0, rankingRow ''ACC002'' ''Loja B'' 2500 0 0 0,
      rankingRow ''ACC003'' ''Loja C'' 1500 0 0 0]
     (insertionSort (rankingLess whole_ops)
        [rankingRow ''ACC001'' ''Loja A'' 3000 0 0 0, rankingRow ''ACC002'' ''Loja B'' 2500 0 0 0,
         rankingRow ''ACC003'' ''Loja C'' 1500 0 0 0])
   \<and> map Position
       (updatePositions insertionSort whole_ops
          [rankingRow ''ACC001'' ''Loja A'' 3000 0 0 0, rankingRow ''ACC002'' ''Loja B'' 2500 0 0 0,
           rankingRow ''ACC003'' ''Loja C'' 1500 0 0 0] Map.empty)
     = [1, 2, 3]
   \<and> updatePositions insertionSort whole_ops
          [rankingRow ''ACC001'' ''Loja A'' 3000 0 0 0, rankingRow ''ACC002'' ''Loja B'' 2500 0 0 0,
           rankingRow ''ACC003'' ''Loja C'' 1500 0 0 0] Map.empty
     = [rankingRow ''ACC001'' ''Loja A'' 3000 1 0 0, rankingRow ''ACC002'' ''Loja B'' 2500 2 0 0,
        rankingRow ''ACC003'' ''Loja C'' 1500 3 0 0]"
proof -
  let ?rows = "[rankingRow ''ACC001'' ''Loja A'' 3000 0 0 0, rankingRow ''ACC002'' ''Loja B'' 2500 0 0 0,
      rankingRow ''ACC003'' ''Loja C'' 1500 0 0 0]"
  have post: "sortSlice_post (rankingLess whole_ops) ?rows (insertionSort (rankingLess whole_ops) ?rows)"
    unfolding insertionSort_three
    by (simp add: sortSlice_post_def rankingLess_def whole_gt rankingRow_def)
  have "map int [1..<Suc (length ?rows)] = [1, 2, 3]"
    by (simp add: upt_rec)
  with positions_contiguous_and_sorted
         [where sortSlice = insertionSort and fl = whole_ops and rows = ?rows
            and before = Map.empty, OF post]
  have "map Position (updatePositions insertionSort whole_ops ?rows Map.empty) = [1, 2, 3]"
    by simp
  moreover have "updatePositions insertionSort whole_ops ?rows Map.empty
     = [rankingRow ''ACC001'' ''Loja A'' 3000 1 0 0, rankingRow ''ACC002'' ''Loja B'' 2500 2 0 0,
        rankingRow ''ACC003'' ''Loja C'' 1500 3 0 0]"
    unfolding updatePositions_def insertionSort_three
    by (simp add: positionRow_def rankingRow_def)
  ultimately show ?thesis using post by simp
qed

text \<open>
Claim C5, at the input where the code departs from it. Every account has sold 1000 and none has a stored row, as in the test \<open>Receitas iguais - deve manter ordem estavel\<close>. When the rows arrive on the channel in the order of the account list, Loja A gets position 1 and Loja B position 2. When the goroutine of a later account sends its row first, the later account is ranked first: Loja B before Loja A, and with three accounts Loja C, Loja B, Loja A. The sort compares revenues only and leaves tied rows as it found them, so the order of the account list is lost.
\<close>

theorem tied_accounts_ranked_by_arrival:
  "processTopRankingAccountsWithDate insertionSort id whole_ops tie_deps
       [account_A, account_B] noon2
     = Inr ([rankingRow ''ACC001'' ''Loja A'' 1000 1 0 0,
             rankingRow ''ACC002'' ''Loja B'' 1000 2 0 0], None)
   \<and> processTopRankingAccountsWithDate insertionSort rev whole_ops tie_deps
       [account_A, account_B] noon2
     = Inr ([rankingRow ''ACC002'' ''Loja B'' 1000 1 0 0,
             rankingRow ''ACC001'' ''Loja A'' 1000 2 0 0], None)
   \<and> processTopRankingAccountsWithDate insertionSort rev whole_ops tie_deps
       [account_A, account_B, account_C] noon2
     = Inr ([rankingRow ''ACC003'' ''Loja C'' 1000 1 0 0,
             rankingRow ''ACC002'' ''Loja B'' 1000 2 0 0,
             rankingRow ''ACC001'' ''Loja A'' 1000 3 0 0], None)"
  by (simp add: processTopRankingAccountsWithDate_def Let_def example_month example_accounts
      tie_deps_def social_revenue updatePositions_def rankingLess_def whole_gt
      rankingsBefore_def positionRow_def rankingRow_def)

lemma combineStep_other_date:
  "AdMetrics e \<noteq> None \<longrightarrow> Format_DateOnly (Date_adEntry e) \<noteq> d \<Longrightarrow>
   costPerResultByDate (combineStep fl st e) d = costPerResultByDate st d \<and>
   resultByDate (combineStep fl st e) d = resultByDate st d"
  by (cases "AdMetrics e") (simp_all add: combineStep_def Let_def)

lemma combine_loop_other_dates:
  "\<forall>e \<in> set xs. AdMetrics e \<noteq> None \<longrightarrow> Format_DateOnly (Date_adEntry e) \<noteq> d \<Longrightarrow>
   costPerResultByDate (foldl (combineStep fl) st xs) d = costPerResultByDate st d \<and>
   resultByDate (foldl (combineStep fl) st xs) d = resultByDate st d"
proof (induction xs arbitrary: st)
  case Nil
  then show ?case by simp
next
  case (Cons x xs)
  from Cons.prems have x: "AdMetrics x \<noteq> None \<longrightarrow> Format_DateOnly (Date_adEntry x) \<noteq> d"
    and xs: "\<forall>e \<in> set xs. AdMetrics e \<noteq> None \<longrightarrow> Format_DateOnly (Date_adEntry e) \<noteq> d"
    by simp_all
  from Cons.IH [OF xs, of "combineStep fl st x"] combineStep_other_date [OF x, of fl st]
  show ?case by simp
qed

lemma calculateDerivedMetrics_maps:
  "CostPerResultByDate (calculateDerivedMetrics fl m a b c d) = CostPerResultByDate m"
  "ResultByDate (calculateDerivedMetrics fl m a b c d) = ResultByDate m"
  by (simp_all add: calculateDerivedMetrics_def Let_def)

lemma calculateDerivedMetrics_totals:
  "Impressions (calculateDerivedMetrics fl m a b c d) = a"
  "Reach (calculateDerivedMetrics fl m a b c d) = b"
  "Result (calculateDerivedMetrics fl m a b c d) = c"
  by (simp_all add: calculateDerivedMetrics_def Let_def)

text \<open>
Claim C10. When the first entry has metrics and no other entry with metrics has its date, \<open>combineAdMetrics\<close> returns, and its two per-date maps hold at the first entry's date twice the first entry's values: the maps are seeded with them before the loop, and the loop adds them again.
\<close>

theorem first_record_counted_twice:
  assumes first: "AdMetrics first = Some m0"
    and others: "\<forall>e \<in> set rest. AdMetrics e \<noteq> None \<longrightarrow>
                   Format_DateOnly (Date_adEntry e) \<noteq> Format_DateOnly (Date_adEntry first)"
  shows "\<exists>out. combineAdMetrics fl (first # rest) = Inr (Some out)
           \<and> CostPerResultByDate out (Format_DateOnly (Date_adEntry first))
               = Some (fadd fl (CostPerResult m0) (CostPerResult m0))
           \<and> ResultByDate out (Format_DateOnly (Date_adEntry first))
               = Some (Result m0 + Result m0)"
proof -
  let ?d = "Format_DateOnly (Date_adEntry first)"
  let ?st0 = "\<lparr>totalImpression = 0, totalReach = 0, totalResults = 0, totalSpend = fzero fl,
                costPerResultByDate = [?d \<mapsto> CostPerResult m0],
                resultByDate = [?d \<mapsto> Result m0], campaignMap = []\<rparr>"
  let ?st1 = "combineStep fl ?st0 first"
  have one: "costPerResultByDate ?st1 ?d = Some (fadd fl (CostPerResult m0) (CostPerResult m0))"
    "resultByDate ?st1 ?d = Some (Result m0 + Result m0)"
    using first by (simp_all add: combineStep_def Let_def)
  from combine_loop_other_dates [OF others, of fl ?st1] one
  have "costPerResultByDate (foldl (combineStep fl) ?st0 (first # rest)) ?d
          = Some (fadd fl (CostPerResult m0) (CostPerResult m0))"
    "resultByDate (foldl (combineStep fl) ?st0 (first # rest)) ?d = Some (Result m0 + Result m0)"
    by simp_all
  then show ?thesis
    using first by (simp add: combineAdMetrics_def Let_def calculateDerivedMetrics_maps)
qed

lemma combineStep_totals:
  "totalImpression (combineStep fl st x)
     = totalImpression st + (case AdMetrics x of None \<Rightarrow> 0 | Some m \<Rightarrow> Impressions m)"
  "totalReach (combineStep fl st x)
     = totalReach st + (case AdMetrics x of None \<Rightarrow> 0 | Some m \<Rightarrow> Reach m)"
  "totalResults (combineStep fl st x)
     = totalResults st + (case AdMetrics x of None \<Rightarrow> 0 | Some m \<Rightarrow> Result m)"
  by (cases "AdMetrics x"; simp add: combineStep_def Let_def)+

lemma combine_loop_totals:
  "totalImpression (foldl (combineStep fl) st xs)
     = totalImpression st + sum_list (map (\<lambda>e. case AdMetrics e of None \<Rightarrow> 0 | Some m \<Rightarrow> Impressions m) xs)
   \<and> totalReach (foldl (combineStep fl) st xs)
     = totalReach st + sum_list (map (\<lambda>e. case AdMetrics e of None \<Rightarrow> 0 | Some m \<Rightarrow> Reach m) xs)
   \<and> totalResults (foldl (combineStep fl) st xs)
     = totalResults st + sum_list (map (\<lambda>e. case AdMetrics e of None \<Rightarrow> 0 | Some m \<Rightarrow> Result m) xs)"
proof (induction xs arbitrary: st)
  case Nil
  then show ?case by simp
next
  case (Cons x xs)
  from Cons.IH [of "combineStep fl st x"] show ?case
    by (simp add: combineStep_totals add.assoc)
qed

lemma combineAdMetrics_totals:
  assumes "AdMetrics first = Some m0"
  shows "\<exists>out. combineAdMetrics fl (first # rest) = Inr (Some out)
     \<and> Impressions out = sum_list (map (\<lambda>e. case AdMetrics e of None \<Rightarrow> 0 | Some m \<Rightarrow> Impressions m) (first # rest))
     \<and> Reach out = sum_list (map (\<lambda>e. case AdMetrics e of None \<Rightarrow> 0 | Some m \<Rightarrow> Reach m) (first # rest))
     \<and> Result out = sum_list (map (\<lambda>e. case AdMetrics e of None \<Rightarrow> 0 | Some m \<Rightarrow> Result m) (first # rest))"
  using assms combine_loop_totals [of fl _ "first # rest"]
  by (simp add: combineAdMetrics_def Let_def calculateDerivedMetrics_totals)

text \<open>
Where \<open>combineAdMetrics\<close> returns for a list and for a permutation of it, the summed impressions, reach and result agree (64-bit addition is commutative and associative). The float64 totals are sums in list order, about which nothing is proved for arbitrary float64 operations.
\<close>

lemma integer_totals_of_permutation:
  assumes "mset xs = mset ys"
    and "combineAdMetrics fl xs = Inr (Some a)" and "combineAdMetrics fl ys = Inr (Some b)"
  shows "Impressions a = Impressions b \<and> Reach a = Reach b \<and> Result a = Result b"
proof -
  from assms(2) obtain x xs' mx where xs: "xs = x # xs'" "AdMetrics x = Some mx"
    by (auto simp: combineAdMetrics_def split: list.splits option.splits)
  from assms(3) obtain y ys' my where ys: "ys = y # ys'" "AdMetrics y = Some my"
    by (auto simp: combineAdMetrics_def split: list.splits option.splits)
  have perm: "\<And>f :: _ \<Rightarrow> 64 word. sum_list (map f xs) = sum_list (map f ys)"
    using assms(1) by (metis mset_map sum_mset_sum_list)
  from combineAdMetrics_totals [OF xs(2), of fl xs'] combineAdMetrics_totals [OF ys(2), of fl ys']
    assms(2,3) xs(1) ys(1)
    perm [of "\<lambda>e. case AdMetrics e of None \<Rightarrow> 0 | Some m \<Rightarrow> Impressions m"]
    perm [of "\<lambda>e. case AdMetrics e of None \<Rightarrow> 0 | Some m \<Rightarrow> Reach m"]
    perm [of "\<lambda>e. case AdMetrics e of None \<Rightarrow> 0 | Some m \<Rightarrow> Result m"]
  show ?thesis by simp
qed

text \<open>
Claim C8, at the input where the code departs from it. An entry without metrics followed by an entry with metrics makes \<open>combineAdMetrics\<close> panic on \<open>adInsights[0].AdMetrics\<close>, while the same two entries in the other order give the totals of the entry with metrics.
\<close>

theorem nil_first_record_panics:
  assumes "AdMetrics e0 = None" and "AdMetrics e1 = Some m1"
  shows "mset [e0, e1] = mset [e1, e0]
     \<and> combineAdMetrics fl [e0, e1] = Inl NilPointerDereference
     \<and> (\<exists>out. combineAdMetrics fl [e1, e0] = Inr (Some out)
          \<and> Impressions out = Impressions m1 \<and> Reach out = Reach m1 \<and> Result out = Result m1)"
proof -
  from combineAdMetrics_totals [OF assms(2), of fl "[e0]"] assms(1)
  have "\<exists>out. combineAdMetrics fl [e1, e0] = Inr (Some out)
          \<and> Impressions out = Impressions m1 \<and> Reach out = Reach m1 \<and> Result out = Result m1"
    by (simp add: assms(2))
  moreover have "combineAdMetrics fl [e0, e1] = Inl NilPointerDereference"
    using assms(1) by (simp add: combineAdMetrics_def)
  ultimately show ?thesis by simp
qed

lemma example_entries:
  "AdMetrics (adEntryOf d) = Some example_metrics" "AdMetrics (emptyAdEntryOf d) = None"
  "Date_adEntry (adEntryOf d) = d"
  "CostPerResult example_metrics = 10" "Result example_metrics = 10"
  "Impressions example_metrics = 1000" "Reach example_metrics = 500"
  by (simp_all add: adEntryOf_def emptyAdEntryOf_def example_metrics_def)

text \<open>
Witness for C10: two days with cost per result 10 and result 10 each; the first day's entries are 20 and 20, the second day's 10 and 10.
\<close>

theorem first_record_counted_twice_witness:
  "AdMetrics (adEntryOf day1) = Some example_metrics
   \<and> Format_DateOnly (Date_adEntry (adEntryOf day2)) \<noteq> Format_DateOnly (Date_adEntry (adEntryOf day1))
   \<and> (\<exists>out. combineAdMetrics whole_ops [adEntryOf day1, adEntryOf day2] = Inr (Some out)
         \<and> CostPerResultByDate out ''2024-05-13'' = Some 20
         \<and> ResultByDate out ''2024-05-13'' = Some 20
         \<and> CostPerResultByDate out ''2024-05-14'' = Some 10
         \<and> ResultByDate out ''2024-05-14'' = Some 10)"
proof -
  have others: "\<forall>e \<in> set [adEntryOf day2]. AdMetrics e \<noteq> None \<longrightarrow>
      Format_DateOnly (Date_adEntry e) \<noteq> Format_DateOnly (Date_adEntry (adEntryOf day1))"
    by (simp add: example_entries Format_day1 Format_day2)
  from first_record_counted_twice
         [where first = "adEntryOf day1" and rest = "[adEntryOf day2]" and fl = whole_ops
            and ?m0.0 = example_metrics, OF example_entries(1) others]
  obtain out where out: "combineAdMetrics whole_ops [adEntryOf day1, adEntryOf day2] = Inr (Some out)"
    "CostPerResultByDate out ''2024-05-13'' = Some 20" "ResultByDate out ''2024-05-13'' = Some 20"
    by (auto simp: example_entries Format_day1 whole_ops_def)
  from out(1) have "CostPerResultByDate out ''2024-05-14'' = Some 10
      \<and> ResultByDate out ''2024-05-14'' = Some 10"
    by (auto simp: combineAdMetrics_def Let_def example_entries combineStep_def Format_day1
        Format_day2 calculateDerivedMetrics_maps whole_ops_def)
  with out show ?thesis
    by (auto simp: example_entries Format_day1 Format_day2)
qed

text \<open>
Witness for the evaluation of C8: a row with a NULL metrics column for day 1 and a fetched entry for day 2.
\<close>

theorem nil_first_record_panics_witness:
  "AdMetrics (emptyAdEntryOf day1) = None \<and> AdMetrics (adEntryOf day2) = Some example_metrics
   \<and> combineAdMetrics whole_ops [emptyAdEntryOf day1, adEntryOf day2] = Inl NilPointerDereference
   \<and> (\<exists>out. combineAdMetrics whole_ops [adEntryOf day2, emptyAdEntryOf day1] = Inr (Some out)
         \<and> Impressions out = 1000 \<and> Reach out = 500 \<and> Result out = 10)"
  using nil_first_record_panics
          [where ?e0.0 = "emptyAdEntryOf day1" and ?e1.0 = "adEntryOf day2" and fl = whole_ops
             and ?m1.0 = example_metrics, OF example_entries(2) example_entries(1)]
  by (simp add: example_entries)

text \<open>
Claim C3, at the input where the code departs from it. Top-ranking job: after the cron goroutine has taken the mutex and set the flag, the manual trigger cannot move (it waits in \<open>Lock()\<close>); when the run has returned, the trigger finds the flag cleared and starts a second run, so two passes are made. Meta job, same arrival: the trigger finds the flag set and returns, and one pass is made.
\<close>

theorem ranking_trigger_during_run_is_queued:
  "goroutines (run [0, 0] (idle [R_Lock, T_Lock TopRanking])) = [R_Pass, T_Lock TopRanking]
   \<and> syncRunning (run [0, 0] (idle [R_Lock, T_Lock TopRanking]))
   \<and> step (run [0, 0] (idle [R_Lock, T_Lock TopRanking])) 1 = run [0, 0] (idle [R_Lock, T_Lock TopRanking])
   \<and> run [0, 0, 1, 0, 1, 0, 0, 1, 1, 1, 2, 2, 2, 2, 2] (idle [R_Lock, T_Lock TopRanking])
       = \<lparr>mutexLocked = False, syncRunning = False, passes = 2,
          goroutines = [Returned, Returned, Returned]\<rparr>
   \<and> goroutines (run [0, 0] (idle [M_Lock, T_Lock MetaInsights])) = [M_Pass, T_Lock MetaInsights]
   \<and> syncRunning (run [0, 0] (idle [M_Lock, T_Lock MetaInsights]))
   \<and> run [0, 0, 1, 1, 0, 0, 0] (idle [M_Lock, T_Lock MetaInsights])
       = \<lparr>mutexLocked = False, syncRunning = False, passes = 1,
          goroutines = [Returned, Returned]\<rparr>"
  by (simp add: run_def step_def idle_def runFunction_def)

end
